theory Spec2Isabelle
  imports Main "HOL-Library.Sublist"
begin

section \<open>Strings and numbers as the TypeScript code uses them\<close>

text \<open>
  A JavaScript string is modelled as a \<^typ>\<open>string\<close> (a list of code units).
  \<^verbatim>\<open>s.includes(pat)\<close> is the substring test: some suffix of \<open>s\<close> starts with \<open>pat\<close>.
\<close>

fun str_includes :: "string \<Rightarrow> string \<Rightarrow> bool" where
  "str_includes [] pat = (pat = [])"
| "str_includes (c # cs) pat = (prefix pat (c # cs) \<or> str_includes cs pat)"

text \<open>
  A port is a non-negative integer. The template literal \<^verbatim>\<open>`${port}`\<close> renders such a
  number in decimal, without sign or leading zeros (JavaScript does so for every integer
  below \<open>10\<^sup>2\<^sup>1\<close>, far above any port number).
\<close>

definition digit_char :: "nat \<Rightarrow> char" where
  "digit_char d = ''0123456789'' ! d"

fun number_toString :: "nat \<Rightarrow> string" where
  "number_toString n =
     (if n < 10 then [digit_char n]
      else number_toString (n div 10) @ [digit_char (n mod 10)])"

declare number_toString.simps [simp del]

text \<open>
  An optional string (\<^verbatim>\<open>string | undefined\<close>) is a \<^typ>\<open>string option\<close>. JavaScript
  treats both \<^verbatim>\<open>undefined\<close> and the empty string as false in \<^verbatim>\<open>x && ...\<close>,
  \<^verbatim>\<open>x || ...\<close> and \<^verbatim>\<open>!x\<close>.
\<close>

definition truthy :: "string option \<Rightarrow> bool" where
  "truthy x = (case x of None \<Rightarrow> False | Some s \<Rightarrow> s \<noteq> [])"

text \<open>\<^verbatim>\<open>x || d\<close> on an optional string.\<close>

definition or_else :: "string option \<Rightarrow> string \<Rightarrow> string" where
  "or_else x d = (case x of None \<Rightarrow> d | Some s \<Rightarrow> if s \<noteq> [] then s else d)"

section \<open>utils/agent-server.ts: the command builder\<close>

definition DEFAULT_AGENT_SERVER_PATH :: string where
  "DEFAULT_AGENT_SERVER_PATH = ''/container-server/software-agent-sdk/.venv/bin/agent-server''"

definition DEFAULT_AGENT_SERVER_DIR :: string where
  "DEFAULT_AGENT_SERVER_DIR = ''/container-server/software-agent-sdk''"

text \<open>
  \<^verbatim>\<open>const command = `${DEFAULT_AGENT_SERVER_PATH} --host 0.0.0.0 --port ${port}`;
  return directory && directory !== DEFAULT_AGENT_SERVER_DIR
    ? `cd ${directory} && ${command}` : command;\<close>
\<close>

definition buildAgentServerCommand :: "nat \<Rightarrow> string option \<Rightarrow> string" where
  "buildAgentServerCommand port directory =
     (let command = DEFAULT_AGENT_SERVER_PATH @ '' --host 0.0.0.0 --port '' @ number_toString port
      in case directory of
           None \<Rightarrow> command
         | Some d \<Rightarrow>
             if d \<noteq> [] \<and> d \<noteq> DEFAULT_AGENT_SERVER_DIR
             then ''cd '' @ d @ '' && '' @ command
             else command)"

section \<open>The sandbox capability and the types of types.ts\<close>

text \<open>
  A process record as \<^verbatim>\<open>listProcesses\<close> and \<^verbatim>\<open>startProcess\<close> return it. The code reads its
  \<^verbatim>\<open>id\<close>, \<^verbatim>\<open>command\<close> and \<^verbatim>\<open>status\<close>, and compares the status with string literals.
\<close>

record process =
  proc_id :: string
  command :: string
  status :: string

record logs =
  stdout :: string
  stderr :: string

record start_options =
  cwd :: string
  env :: "(string \<times> string) list option"

record wait_options =
  mode :: string
  path :: string
  timeout :: nat

text \<open>\<^verbatim>\<open>exposePort\<close> returns a string or an object with a \<^verbatim>\<open>url\<close> field (line 212).\<close>

datatype exposed = ExposedString string | ExposedObject string

record exposed_port =
  ep_port :: nat
  ep_url :: string

record OpenhandsOptions =
  opt_port :: "nat option"
  opt_directory :: "string option"
  opt_hostname :: "string option"
  opt_exposePort :: "bool option"
  opt_env :: "(string \<times> string) list option"
  opt_sandboxName :: "string option"

record OpenhandsStartupContext =
  ctx_port :: nat
  ctx_stderr :: "string option"
  ctx_command :: "string option"
  ctx_processId :: "string option"

text \<open>
  Whatever a sandbox call throws is an opaque \<open>failure\<close>. The exceptions of this code are
  the plain \<^verbatim>\<open>Error\<close> of line 203 and \<^verbatim>\<open>OpenhandsStartupError\<close> (message, context, cause);
  the \<^verbatim>\<open>name\<close> and \<^verbatim>\<open>code\<close> of the latter are constants of the class.
\<close>

type_synonym failure = string

datatype exn =
    SandboxFailure failure
  | Error string
  | OpenhandsStartupError string OpenhandsStartupContext exn

text \<open>
  The server handle. \<^verbatim>\<open>close()\<close> is a closure over the process; the handle keeps that
  process and \<open>close\<close> below kills it.
\<close>

record OpenhandsServer =
  srv_port :: nat
  url :: string
  previewUrl :: "string option"
  processId :: string
  closes :: process

text \<open>
  The sandbox is an external collaborator: every operation may change the sandbox's own
  state \<open>'s\<close> in any way and either returns a value or throws. What other callers do to
  the sandbox in the meantime is part of that state change. \<open>waitForPort\<close>, \<open>getLogs\<close>
  and \<open>kill\<close> are the methods of a process object.
\<close>

record 's sandbox =
  listProcesses :: "'s \<Rightarrow> (failure + process list) \<times> 's"
  startProcess :: "string \<Rightarrow> start_options \<Rightarrow> 's \<Rightarrow> (failure + process) \<times> 's"
  waitForPort :: "process \<Rightarrow> nat \<Rightarrow> wait_options \<Rightarrow> 's \<Rightarrow> (failure + unit) \<times> 's"
  getLogs :: "process \<Rightarrow> 's \<Rightarrow> (failure + logs) \<times> 's"
  kill :: "process \<Rightarrow> string \<Rightarrow> 's \<Rightarrow> (failure + unit) \<times> 's"
  exposePort :: "nat \<Rightarrow> string \<Rightarrow> 's \<Rightarrow> (failure + exposed) \<times> 's"
  getExposedPorts :: "string \<Rightarrow> 's \<Rightarrow> (failure + exposed_port list) \<times> 's"

text \<open>
  The calls made to the sandbox are recorded in order, with their arguments, next to the
  sandbox state; \<^verbatim>\<open>console.warn\<close> appends to \<open>console\<close>.
\<close>

datatype call =
    ListProcesses
  | StartProcess string start_options
  | WaitForPort string nat wait_options
  | GetLogs string
  | Kill string string
  | ExposePort nat string
  | GetExposedPorts string

record 's world =
  sbx :: 's
  calls :: "call list"
  console :: "(string \<times> exn) list"

definition performed ::
  "call \<Rightarrow> (failure + 'a) \<times> 's \<Rightarrow> 's world \<Rightarrow> (exn + 'a) \<times> 's world" where
  "performed c out w =
     (case out of
        (Inl f, s') \<Rightarrow> (Inl (SandboxFailure f), w\<lparr>sbx := s', calls := calls w @ [c]\<rparr>)
      | (Inr v, s') \<Rightarrow> (Inr v, w\<lparr>sbx := s', calls := calls w @ [c]\<rparr>))"

definition call_listProcesses :: "'s sandbox \<Rightarrow> 's world \<Rightarrow> (exn + process list) \<times> 's world" where
  "call_listProcesses sb w = performed ListProcesses (listProcesses sb (sbx w)) w"

definition call_startProcess ::
  "'s sandbox \<Rightarrow> string \<Rightarrow> start_options \<Rightarrow> 's world \<Rightarrow> (exn + process) \<times> 's world" where
  "call_startProcess sb cmd opts w =
     performed (StartProcess cmd opts) (startProcess sb cmd opts (sbx w)) w"

definition call_waitForPort ::
  "'s sandbox \<Rightarrow> process \<Rightarrow> nat \<Rightarrow> wait_options \<Rightarrow> 's world \<Rightarrow> (exn + unit) \<times> 's world" where
  "call_waitForPort sb p port opts w =
     performed (WaitForPort (proc_id p) port opts) (waitForPort sb p port opts (sbx w)) w"

definition call_getLogs :: "'s sandbox \<Rightarrow> process \<Rightarrow> 's world \<Rightarrow> (exn + logs) \<times> 's world" where
  "call_getLogs sb p w = performed (GetLogs (proc_id p)) (getLogs sb p (sbx w)) w"

definition call_kill ::
  "'s sandbox \<Rightarrow> process \<Rightarrow> string \<Rightarrow> 's world \<Rightarrow> (exn + unit) \<times> 's world" where
  "call_kill sb p signal w = performed (Kill (proc_id p) signal) (kill sb p signal (sbx w)) w"

definition call_exposePort ::
  "'s sandbox \<Rightarrow> nat \<Rightarrow> string \<Rightarrow> 's world \<Rightarrow> (exn + exposed) \<times> 's world" where
  "call_exposePort sb port hostname w =
     performed (ExposePort port hostname) (exposePort sb port hostname (sbx w)) w"

definition call_getExposedPorts ::
  "'s sandbox \<Rightarrow> string \<Rightarrow> 's world \<Rightarrow> (exn + exposed_port list) \<times> 's world" where
  "call_getExposedPorts sb hostname w =
     performed (GetExposedPorts hostname) (getExposedPorts sb hostname (sbx w)) w"

section \<open>openhands/openhands.ts: the lifecycle coordinator\<close>

definition DEFAULT_PORT :: nat where
  "DEFAULT_PORT = 8001"

text \<open>The \<^verbatim>\<open>for\<close> loop of \<^verbatim>\<open>findExistingAgentServer\<close> (lines 27 to 42), three nested tests.\<close>

fun findExistingAgentServer_loop :: "process list \<Rightarrow> nat \<Rightarrow> process option" where
  "findExistingAgentServer_loop [] port = None"
| "findExistingAgentServer_loop (proc # rest) port =
     (if str_includes (command proc) DEFAULT_AGENT_SERVER_PATH then
        if str_includes (command proc) (''--port '' @ number_toString port) \<or>
           str_includes (command proc) (''--port='' @ number_toString port) then
          if status proc = ''starting'' \<or> status proc = ''running'' then Some proc
          else findExistingAgentServer_loop rest port
        else findExistingAgentServer_loop rest port
      else findExistingAgentServer_loop rest port)"

definition findExistingAgentServer ::
  "'s sandbox \<Rightarrow> nat \<Rightarrow> 's world \<Rightarrow> (exn + process option) \<times> 's world" where
  "findExistingAgentServer sb port w =
     (case call_listProcesses sb w of
        (Inl e, w1) \<Rightarrow> (Inl e, w1)
      | (Inr processes, w1) \<Rightarrow> (Inr (findExistingAgentServer_loop processes port), w1))"

text \<open>\<^verbatim>\<open>logs.stderr || '(empty)'\<close>\<close>

definition stderr_or_empty :: "logs \<Rightarrow> string" where
  "stderr_or_empty lg = (if stderr lg \<noteq> [] then stderr lg else ''(empty)'')"

definition startAgentServer ::
  "'s sandbox \<Rightarrow> nat \<Rightarrow> OpenhandsOptions \<Rightarrow> 's world \<Rightarrow> (exn + process) \<times> 's world" where
  "startAgentServer sb port options w =
     (let directory = or_else (opt_directory options) DEFAULT_AGENT_SERVER_DIR;
          cmd = buildAgentServerCommand port (Some directory)
      in case call_startProcess sb cmd \<lparr>cwd = directory, env = opt_env options\<rparr> w of
           (Inl e, w1) \<Rightarrow> (Inl e, w1)
         | (Inr process, w1) \<Rightarrow>
             (case call_waitForPort sb process port
                     \<lparr>mode = ''http'', path = ''/'', timeout = 60000\<rparr> w1 of
                (Inr u, w2) \<Rightarrow> (Inr process, w2)
              | (Inl e, w2) \<Rightarrow>
                  (case call_getLogs sb process w2 of
                     (Inl e', w3) \<Rightarrow> (Inl e', w3)
                   | (Inr lg, w3) \<Rightarrow>
                       (Inl (OpenhandsStartupError
                               (''agent-server failed to start on port '' @ number_toString port
                                  @ ''. Stderr: '' @ stderr_or_empty lg)
                               \<lparr>ctx_port = port, ctx_stderr = Some (stderr lg),
                                 ctx_command = Some (command process),
                                 ctx_processId = Some (proc_id process)\<rparr>
                               e), w3))))"

text \<open>
  \<^verbatim>\<open>ensureAgentServer\<close>, lines 90 to 159. The block that waits for a located process is
  written twice in the source (lines 99 to 120 and 132 to 153) and twice here.
\<close>

definition ensureAgentServer ::
  "'s sandbox \<Rightarrow> nat \<Rightarrow> OpenhandsOptions \<Rightarrow> 's world \<Rightarrow> (exn + process) \<times> 's world" where
  "ensureAgentServer sb port options w =
     (case findExistingAgentServer sb port w of
        (Inl e, w1) \<Rightarrow> (Inl e, w1)
      | (Inr (Some existingProcess), w1) \<Rightarrow>
          (if status existingProcess = ''starting'' then
             (case call_waitForPort sb existingProcess port
                     \<lparr>mode = ''http'', path = ''/'', timeout = 60000\<rparr> w1 of
                (Inr u, w2) \<Rightarrow> (Inr existingProcess, w2)
              | (Inl e, w2) \<Rightarrow>
                  (case call_getLogs sb existingProcess w2 of
                     (Inl e', w3) \<Rightarrow> (Inl e', w3)
                   | (Inr lg, w3) \<Rightarrow>
                       (Inl (OpenhandsStartupError
                               (''agent-server failed to start. Stderr: '' @ stderr_or_empty lg)
                               \<lparr>ctx_port = port, ctx_stderr = Some (stderr lg),
                                 ctx_command = Some (command existingProcess),
                                 ctx_processId = Some (proc_id existingProcess)\<rparr>
                               e), w3)))
           else (Inr existingProcess, w1))
      | (Inr None, w1) \<Rightarrow>
          (case startAgentServer sb port options w1 of
             (Inr process, w2) \<Rightarrow> (Inr process, w2)
           | (Inl startupError, w2) \<Rightarrow>
               (case findExistingAgentServer sb port w2 of
                  (Inl e, w3) \<Rightarrow> (Inl e, w3)
                | (Inr (Some retryProcess), w3) \<Rightarrow>
                    (if status retryProcess = ''starting'' then
                       (case call_waitForPort sb retryProcess port
                               \<lparr>mode = ''http'', path = ''/'', timeout = 60000\<rparr> w3 of
                          (Inr u, w4) \<Rightarrow> (Inr retryProcess, w4)
                        | (Inl e, w4) \<Rightarrow>
                            (case call_getLogs sb retryProcess w4 of
                               (Inl e', w5) \<Rightarrow> (Inl e', w5)
                             | (Inr lg, w5) \<Rightarrow>
                                 (Inl (OpenhandsStartupError
                                         (''agent-server failed to start. Stderr: ''
                                            @ stderr_or_empty lg)
                                         \<lparr>ctx_port = port, ctx_stderr = Some (stderr lg),
                                           ctx_command = Some (command retryProcess),
                                           ctx_processId = Some (proc_id retryProcess)\<rparr>
                                         e), w5)))
                     else (Inr retryProcess, w3))
                | (Inr None, w3) \<Rightarrow> (Inl startupError, w3))))"

text \<open>\<^verbatim>\<open>typeof exposed === 'string' ? exposed : exposed.url\<close>\<close>

fun exposed_url :: "exposed \<Rightarrow> string" where
  "exposed_url (ExposedString u) = u"
| "exposed_url (ExposedObject u) = u"

definition hostname_required :: string where
  "hostname_required =
     ''hostname is required when exposePort is true. Provide hostname in options or extract from request URL.''"

definition createOpenhandsServer ::
  "'s sandbox \<Rightarrow> OpenhandsOptions \<Rightarrow> 's world \<Rightarrow> (exn + OpenhandsServer) \<times> 's world" where
  "createOpenhandsServer sb options w =
     (let port = (case opt_port options of Some n \<Rightarrow> n | None \<Rightarrow> DEFAULT_PORT)
      in case ensureAgentServer sb port options w of
           (Inl e, w1) \<Rightarrow> (Inl e, w1)
         | (Inr process, w1) \<Rightarrow>
             (if opt_exposePort options = Some True then
                (case opt_hostname options of
                   None \<Rightarrow> (Inl (Error hostname_required), w1)
                 | Some hostname \<Rightarrow>
                     if hostname = [] then (Inl (Error hostname_required), w1)
                     else
                       (case call_exposePort sb port hostname w1 of
                          (Inr ex, w2) \<Rightarrow>
                            (Inr \<lparr>srv_port = port,
                                   url = ''http://localhost:'' @ number_toString port,
                                   previewUrl = Some (exposed_url ex),
                                   processId = proc_id process, closes = process\<rparr>, w2)
                        | (Inl error, w2) \<Rightarrow>
                            (Inr \<lparr>srv_port = port,
                                   url = ''http://localhost:'' @ number_toString port,
                                   previewUrl = None,
                                   processId = proc_id process, closes = process\<rparr>,
                             w2\<lparr>console := console w2 @ [(''Failed to expose port:'', error)]\<rparr>)))
              else
                (Inr \<lparr>srv_port = port, url = ''http://localhost:'' @ number_toString port,
                       previewUrl = None, processId = proc_id process, closes = process\<rparr>, w1)))"

text \<open>\<^verbatim>\<open>async close() { await process.kill('SIGTERM'); }\<close>\<close>

definition close :: "'s sandbox \<Rightarrow> OpenhandsServer \<Rightarrow> 's world \<Rightarrow> (exn + unit) \<times> 's world" where
  "close sb server w = call_kill sb (closes server) ''SIGTERM'' w"

section \<open>The route layer: locating the server, the stop route and the status route\<close>

text \<open>
  The loop of \<^verbatim>\<open>findOpenhandsServer\<close> tests one conjunction per process; at the first
  process that passes, the function asks for the exposed ports and returns a handle.
\<close>

fun findOpenhandsServer_loop :: "process list \<Rightarrow> nat \<Rightarrow> process option" where
  "findOpenhandsServer_loop [] port = None"
| "findOpenhandsServer_loop (process # rest) port =
     (if str_includes (command process) DEFAULT_AGENT_SERVER_PATH \<and>
         (str_includes (command process) (''--port '' @ number_toString port) \<or>
          str_includes (command process) (''--port='' @ number_toString port)) \<and>
         (status process = ''running'' \<or> status process = ''starting'')
      then Some process
      else findOpenhandsServer_loop rest port)"

definition findOpenhandsServer ::
  "'s sandbox \<Rightarrow> nat \<Rightarrow> 's world \<Rightarrow> (exn + OpenhandsServer option) \<times> 's world" where
  "findOpenhandsServer sb port w =
     (case call_listProcesses sb w of
        (Inl e, w1) \<Rightarrow> (Inl e, w1)
      | (Inr processes, w1) \<Rightarrow>
          (case findOpenhandsServer_loop processes port of
             None \<Rightarrow> (Inr None, w1)
           | Some process \<Rightarrow>
               (case call_getExposedPorts sb [] w1 of
                  (Inl e, w2) \<Rightarrow>
                    (Inr (Some \<lparr>srv_port = port,
                                 url = ''http://localhost:'' @ number_toString port,
                                 previewUrl = None,
                                 processId = proc_id process, closes = process\<rparr>), w2)
                | (Inr exposedPorts, w2) \<Rightarrow>
                    (Inr (Some \<lparr>srv_port = port,
                                 url = ''http://localhost:'' @ number_toString port,
                                 previewUrl =
                                   (case find (\<lambda>p. ep_port p = port) exposedPorts of
                                      None \<Rightarrow> None
                                    | Some ex \<Rightarrow> Some (ep_url ex)),
                                 processId = proc_id process, closes = process\<rparr>), w2))))"

text \<open>
  A response is its HTTP status and its JSON body; \<^verbatim>\<open>Response.json(body)\<close> has status 200
  unless one is given. A field whose value is \<^verbatim>\<open>undefined\<close> is left out of the body.
\<close>

datatype json =
    JNull
  | JBool bool
  | JNumber nat
  | JString string
  | JObject "(string \<times> json) list"

record response =
  resp_status :: nat
  resp_body :: json

text \<open>\<^verbatim>\<open>error instanceof Error ? error.message : String(error)\<close>\<close>

fun error_message :: "exn \<Rightarrow> string" where
  "error_message (SandboxFailure f) = f"
| "error_message (Error m) = m"
| "error_message (OpenhandsStartupError m c e) = m"

text \<open>The \<^verbatim>\<open>/stop-openhands\<close> branch of the handler (lines 145 to 166).\<close>

definition stop_route ::
  "'s sandbox \<Rightarrow> OpenhandsOptions \<Rightarrow> 's world \<Rightarrow> response \<times> 's world" where
  "stop_route sb options w =
     (let port = (case opt_port options of Some n \<Rightarrow> n | None \<Rightarrow> 8001)
      in case findOpenhandsServer sb port w of
           (Inl error, w1) \<Rightarrow>
             (\<lparr>resp_status = 500,
               resp_body = JObject [(''error'', JString (error_message error)),
                                    (''success'', JBool False)]\<rparr>, w1)
         | (Inr (Some server), w1) \<Rightarrow>
             (case close sb server w1 of
                (Inl error, w2) \<Rightarrow>
                  (\<lparr>resp_status = 500,
                    resp_body = JObject [(''error'', JString (error_message error)),
                                         (''success'', JBool False)]\<rparr>, w2)
              | (Inr u, w2) \<Rightarrow>
                  (\<lparr>resp_status = 200,
                    resp_body = JObject [(''success'', JBool True),
                                         (''message'', JString ''Server stopped'')]\<rparr>, w2))
         | (Inr None, w1) \<Rightarrow>
             (\<lparr>resp_status = 404,
               resp_body = JObject [(''success'', JBool False),
                                    (''message'', JString ''No server running'')]\<rparr>, w1))"

text \<open>The \<^verbatim>\<open>/openhands-status\<close> branch of the handler (lines 168 to 205).\<close>

definition status_route ::
  "'s sandbox \<Rightarrow> OpenhandsOptions \<Rightarrow> 's world \<Rightarrow> response \<times> 's world" where
  "status_route sb options w =
     (let port = (case opt_port options of Some n \<Rightarrow> n | None \<Rightarrow> 8001)
      in case findOpenhandsServer sb port w of
           (Inl error, w1) \<Rightarrow>
             (\<lparr>resp_status = 500,
               resp_body = JObject [(''error'', JString (error_message error)),
                                    (''success'', JBool False)]\<rparr>, w1)
         | (Inr None, w1) \<Rightarrow>
             (\<lparr>resp_status = 200,
               resp_body = JObject [(''running'', JBool False), (''success'', JBool True)]\<rparr>, w1)
         | (Inr (Some server), w1) \<Rightarrow>
             (case call_listProcesses sb w1 of
                (Inl error, w2) \<Rightarrow>
                  (\<lparr>resp_status = 500,
                    resp_body = JObject [(''error'', JString (error_message error)),
                                         (''success'', JBool False)]\<rparr>, w2)
              | (Inr processes, w2) \<Rightarrow>
                  (let process = find (\<lambda>p. proc_id p = processId server) processes
                   in (\<lparr>resp_status = 200,
                        resp_body = JObject
                          ([(''running'',
                             JBool (case process of None \<Rightarrow> False
                                    | Some p \<Rightarrow> status p = ''running'')),
                            (''port'', JNumber (srv_port server))]
                           @ (case previewUrl server of None \<Rightarrow> []
                              | Some u \<Rightarrow> [(''previewUrl'', JString u)])
                           @ [(''process'',
                               (case process of None \<Rightarrow> JNull
                                | Some p \<Rightarrow>
                                    JObject [(''id'', JString (proc_id p)),
                                             (''status'', JString (status p)),
                                             (''command'', JString (command p))])),
                              (''success'', JBool True)])\<rparr>, w2))))"

section \<open>Notions used to state the properties\<close>

text \<open>The calls made between two worlds of one run.\<close>

definition calls_since :: "'s world \<Rightarrow> 's world \<Rightarrow> call list" where
  "calls_since w w' = drop (length (calls w)) (calls w')"

fun is_StartProcess :: "call \<Rightarrow> bool" where
  "is_StartProcess (StartProcess cmd opts) = True"
| "is_StartProcess c = False"

fun is_ExposePort :: "call \<Rightarrow> bool" where
  "is_ExposePort (ExposePort port hostname) = True"
| "is_ExposePort c = False"

text \<open>
  The locator's signature test in the words of the specification: the command line contains
  the binary path, and \<^verbatim>\<open>--port N\<close> or \<^verbatim>\<open>--port=N\<close>, and the status is \<^verbatim>\<open>starting\<close> or
  \<^verbatim>\<open>running\<close>.
\<close>

definition locator_match :: "nat \<Rightarrow> process \<Rightarrow> bool" where
  "locator_match port p \<longleftrightarrow>
     str_includes (command p) DEFAULT_AGENT_SERVER_PATH \<and>
     (str_includes (command p) (''--port '' @ number_toString port) \<or>
      str_includes (command p) (''--port='' @ number_toString port)) \<and>
     (status p = ''starting'' \<or> status p = ''running'')"

text \<open>The options every readiness wait of the coordinator passes: HTTP on \<^verbatim>\<open>/\<close>, 60 seconds.\<close>

definition wait60 :: wait_options where
  "wait60 = \<lparr>mode = ''http'', path = ''/'', timeout = 60000\<rparr>"

text \<open>
  The startup failure of the specification: a message ending in the captured stderr (or
  \<^verbatim>\<open>(empty)\<close>), and the context of port, stderr, command line and process id.
\<close>

definition startup_failed :: "string \<Rightarrow> nat \<Rightarrow> process \<Rightarrow> logs \<Rightarrow> exn \<Rightarrow> exn" where
  "startup_failed headline port p lg cause =
     OpenhandsStartupError (headline @ stderr_or_empty lg)
       \<lparr>ctx_port = port, ctx_stderr = Some (stderr lg),
         ctx_command = Some (command p), ctx_processId = Some (proc_id p)\<rparr> cause"

text \<open>
  Step 2 of the specified algorithm, for a process the locator has found: wait for
  readiness if its status is \<^verbatim>\<open>starting\<close>; a failed wait fetches the logs and fails with the
  startup failure; otherwise the process itself is the result.
\<close>

definition await_located ::
  "'s sandbox \<Rightarrow> nat \<Rightarrow> process \<Rightarrow> 's world \<Rightarrow> (exn + process) \<times> 's world" where
  "await_located sb port p w =
     (if status p = ''starting'' then
        (case call_waitForPort sb p port wait60 w of
           (Inr u, w1) \<Rightarrow> (Inr p, w1)
         | (Inl e, w1) \<Rightarrow>
             (case call_getLogs sb p w1 of
                (Inl e', w2) \<Rightarrow> (Inl e', w2)
              | (Inr lg, w2) \<Rightarrow>
                  (Inl (startup_failed ''agent-server failed to start. Stderr: '' port p lg e),
                   w2)))
      else (Inr p, w))"

text \<open>
  A sandbox left to itself, for the idempotence of \<^verbatim>\<open>ensure\<close>: nothing but the calls made
  to it changes its process table. \<open>table\<close> reads the process table off the sandbox state
  and \<open>ready s i n\<close> says that process \<open>i\<close> answers on port \<open>n\<close>. A step is undisturbed if it
  keeps the table and every process that answers keeps answering. The sandbox is steady if
  \<^item> \<^verbatim>\<open>listProcesses\<close> returns the table;
  \<^item> \<^verbatim>\<open>startProcess\<close> either fails and adds nothing, or appends the process it returns,
    listed under the command line it was given, as \<^verbatim>\<open>starting\<close> or \<^verbatim>\<open>running\<close>;
  \<^item> \<^verbatim>\<open>waitForPort\<close> succeeds on a process that answers, and after a successful wait the
    process answers;
  \<^item> no other call changes the table: listing, waiting, fetching logs and exposing a port
    are undisturbed steps.
\<close>

definition undisturbed ::
  "('s \<Rightarrow> process list) \<Rightarrow> ('s \<Rightarrow> string \<Rightarrow> nat \<Rightarrow> bool) \<Rightarrow> 's \<Rightarrow> 's \<Rightarrow> bool" where
  "undisturbed table ready s s' \<longleftrightarrow>
     table s' = table s \<and> (\<forall>i n. ready s i n \<longrightarrow> ready s' i n)"

definition steady ::
  "'s sandbox \<Rightarrow> ('s \<Rightarrow> process list) \<Rightarrow> ('s \<Rightarrow> string \<Rightarrow> nat \<Rightarrow> bool) \<Rightarrow> bool" where
  "steady sb table ready \<longleftrightarrow>
     (\<forall>s. fst (listProcesses sb s) = Inr (table s) \<and>
          undisturbed table ready s (snd (listProcesses sb s))) \<and>
     (\<forall>cmd opts s.
        case startProcess sb cmd opts s of
          (Inl f, s') \<Rightarrow> undisturbed table ready s s'
        | (Inr p, s') \<Rightarrow>
            table s' = table s @ [p] \<and> command p = cmd \<and>
            (status p = ''starting'' \<or> status p = ''running'') \<and>
            (\<forall>i n. ready s i n \<longrightarrow> ready s' i n)) \<and>
     (\<forall>p port opts s.
        undisturbed table ready s (snd (waitForPort sb p port opts s)) \<and>
        (case fst (waitForPort sb p port opts s) of
           Inl f \<Rightarrow> \<not> ready s (proc_id p) port
         | Inr u \<Rightarrow> ready (snd (waitForPort sb p port opts s)) (proc_id p) port)) \<and>
     (\<forall>p s. undisturbed table ready s (snd (getLogs sb p s))) \<and>
     (\<forall>port hostname s. undisturbed table ready s (snd (exposePort sb port hostname s)))"

text \<open>
  What holds of a process once \<^verbatim>\<open>ensure\<close> has returned it on a steady sandbox: it is the
  first match of the table, and if it is listed as starting it answers on the port.
\<close>

definition settled ::
  "('s \<Rightarrow> process list) \<Rightarrow> ('s \<Rightarrow> string \<Rightarrow> nat \<Rightarrow> bool) \<Rightarrow> nat \<Rightarrow> process \<Rightarrow> 's \<Rightarrow> bool" where
  "settled table ready port p s \<longleftrightarrow>
     find (locator_match port) (table s) = Some p \<and>
     (status p = ''starting'' \<longrightarrow> ready s (proc_id p) port)"

text \<open>The boolean \<^verbatim>\<open>success\<close> flag of a JSON envelope, if the body has one.\<close>

fun success_flag :: "json \<Rightarrow> bool option" where
  "success_flag (JObject members) =
     (case map_of members ''success'' of Some (JBool b) \<Rightarrow> Some b | _ \<Rightarrow> None)"
| "success_flag j = None"

subsection \<open>An example sandbox\<close>

text \<open>
  A small sandbox for the examples: its state is the process table; a script says whether
  starting, waiting, fetching logs and exposing succeed, and which status a started process
  is listed with.
\<close>

record script =
  start_ok :: bool
  wait_ok :: bool
  logs_ok :: bool
  expose_ok :: bool
  listed_as :: string

definition example_sandbox :: "script \<Rightarrow> process list sandbox" where
  "example_sandbox sc =
     \<lparr>listProcesses = (\<lambda>s. (Inr s, s)),
      startProcess = (\<lambda>cmd opts s.
         if start_ok sc
         then (Inr \<lparr>proc_id = ''proc-1'', command = cmd, status = listed_as sc\<rparr>,
               s @ [\<lparr>proc_id = ''proc-1'', command = cmd, status = listed_as sc\<rparr>])
         else (Inl ''start rejected'', s)),
      waitForPort = (\<lambda>p port opts s. if wait_ok sc then (Inr (), s) else (Inl ''timed out'', s)),
      getLogs = (\<lambda>p s.
         if logs_ok sc then (Inr \<lparr>stdout = [], stderr = ''boom''\<rparr>, s)
         else (Inl ''logs unavailable'', s)),
      kill = (\<lambda>p signal s. (Inr (), filter (\<lambda>q. proc_id q \<noteq> proc_id p) s)),
      exposePort = (\<lambda>port hostname s.
         if expose_ok sc then (Inr (ExposedObject (''https://'' @ hostname)), s)
         else (Inl ''exposure failed'', s)),
      getExposedPorts = (\<lambda>hostname s. (Inr [], s))\<rparr>"

definition after :: "process list \<Rightarrow> call list \<Rightarrow> process list world" where
  "after table cs = \<lparr>sbx = table, calls = cs, console = []\<rparr>"

definition fresh :: "process list \<Rightarrow> process list world" where
  "fresh table = after table []"

definition no_options :: OpenhandsOptions where
  "no_options =
     \<lparr>opt_port = None, opt_directory = None, opt_hostname = None, opt_exposePort = None,
      opt_env = None, opt_sandboxName = None\<rparr>"

text \<open>The two processes of the specification's locator example, and one still starting.\<close>

definition agent_8001 :: process where
  "agent_8001 =
     \<lparr>proc_id = ''a'', command = DEFAULT_AGENT_SERVER_PATH @ '' --port 8001'',
      status = ''running''\<rparr>"

definition agent_9001 :: process where
  "agent_9001 =
     \<lparr>proc_id = ''b'', command = DEFAULT_AGENT_SERVER_PATH @ '' --port 9001'',
      status = ''running''\<rparr>"

definition agent_starting :: process where
  "agent_starting =
     \<lparr>proc_id = ''c'', command = DEFAULT_AGENT_SERVER_PATH @ '' --host 0.0.0.0 --port=8001'',
      status = ''starting''\<rparr>"

text \<open>Scripts: everything succeeds; or single steps fail.\<close>

definition all_ok :: script where
  "all_ok = \<lparr>start_ok = True, wait_ok = True, logs_ok = True, expose_ok = True,
             listed_as = ''running''\<rparr>"

definition start_rejected :: script where
  "start_rejected = all_ok\<lparr>start_ok := False\<rparr>"

definition never_ready :: script where
  "never_ready = all_ok\<lparr>wait_ok := False\<rparr>"

definition logs_lost :: script where
  "logs_lost = all_ok\<lparr>wait_ok := False, logs_ok := False\<rparr>"

definition exposure_fails :: script where
  "exposure_fails = all_ok\<lparr>expose_ok := False\<rparr>"

definition crashes :: script where
  "crashes = all_ok\<lparr>wait_ok := False, listed_as := ''failed''\<rparr>"

definition stays_starting :: script where
  "stays_starting = all_ok\<lparr>wait_ok := False, listed_as := ''starting''\<rparr>"

definition slow_start :: script where
  "slow_start = all_ok\<lparr>listed_as := ''starting''\<rparr>"

definition expose_no_hostname :: OpenhandsOptions where
  "expose_no_hostname = no_options\<lparr>opt_exposePort := Some True\<rparr>"

definition expose_example_com :: OpenhandsOptions where
  "expose_example_com =
     no_options\<lparr>opt_exposePort := Some True, opt_hostname := Some ''example.com''\<rparr>"

text \<open>What the coordinator launches for port 8001 with no options, and how it is listed.\<close>

definition launch_8001 :: string where
  "launch_8001 = buildAgentServerCommand 8001 (Some DEFAULT_AGENT_SERVER_DIR)"

definition start_8001 :: call where
  "start_8001 = StartProcess launch_8001 \<lparr>cwd = DEFAULT_AGENT_SERVER_DIR, env = None\<rparr>"

definition proc_1 :: process where
  "proc_1 = \<lparr>proc_id = ''proc-1'', command = launch_8001, status = ''running''\<rparr>"

text \<open>
  A sandbox that answers the first listing only, with the port 8001 process, and refuses
  everything else; its state counts the listings.
\<close>

definition flaky_sandbox :: "nat sandbox" where
  "flaky_sandbox =
     \<lparr>listProcesses = (\<lambda>n. (if n = 0 then Inr [agent_8001] else Inl ''sandbox unavailable'', Suc n)),
      startProcess = (\<lambda>cmd opts n. (Inl ''sandbox unavailable'', n)),
      waitForPort = (\<lambda>p port opts n. (Inr (), n)),
      getLogs = (\<lambda>p n. (Inr \<lparr>stdout = [], stderr = []\<rparr>, n)),
      kill = (\<lambda>p signal n. (Inl ''kill refused'', n)),
      exposePort = (\<lambda>port hostname n. (Inl ''sandbox unavailable'', n)),
      getExposedPorts = (\<lambda>hostname n. (Inl ''sandbox unavailable'', n))\<rparr>"

definition listed :: "nat \<Rightarrow> call list \<Rightarrow> nat world" where
  "listed n cs = \<lparr>sbx = n, calls = cs, console = []\<rparr>"

text \<open>
  Whether \<open>p\<close> is, by its id, the process that \<^verbatim>\<open>startAgentServer\<close> obtains from
  \<^verbatim>\<open>startProcess\<close> when run in world \<open>w\<close>: the call's own process, as opposed to one that
  another caller started.
\<close>

definition started_here ::
  "'s sandbox \<Rightarrow> nat \<Rightarrow> OpenhandsOptions \<Rightarrow> 's world \<Rightarrow> process \<Rightarrow> bool" where
  "started_here sb port options w p =
     (case call_startProcess sb
             (buildAgentServerCommand port
                (Some (or_else (opt_directory options) DEFAULT_AGENT_SERVER_DIR)))
             \<lparr>cwd = or_else (opt_directory options) DEFAULT_AGENT_SERVER_DIR,
               env = opt_env options\<rparr> w of
        (Inl e, w1) \<Rightarrow> False
      | (Inr q, w1) \<Rightarrow> proc_id q = proc_id p)"

text \<open>
  A lost race: by the time the process of this call is registered, the server of a
  concurrent caller, \<open>rival\<close>, is listed ahead of it, and no readiness wait succeeds (the
  port is taken).
\<close>

definition race_sandbox :: "process \<Rightarrow> process list sandbox" where
  "race_sandbox rival =
     \<lparr>listProcesses = (\<lambda>s. (Inr s, s)),
      startProcess = (\<lambda>cmd opts s.
         (Inr \<lparr>proc_id = ''proc-1'', command = cmd, status = ''running''\<rparr>,
          s @ [rival, \<lparr>proc_id = ''proc-1'', command = cmd, status = ''running''\<rparr>])),
      waitForPort = (\<lambda>p port opts s. (Inl ''timed out'', s)),
      getLogs = (\<lambda>p s. (Inr \<lparr>stdout = [], stderr = ''address already in use''\<rparr>, s)),
      kill = (\<lambda>p signal s. (Inr (), filter (\<lambda>q. proc_id q \<noteq> proc_id p) s)),
      exposePort = (\<lambda>port hostname s. (Inl ''exposure failed'', s)),
      getExposedPorts = (\<lambda>hostname s. (Inr [], s))\<rparr>"

section \<open>Evaluation and string lemmas\<close>

lemma number_toString_small: "n < 10 \<Longrightarrow> number_toString n = [digit_char n]"
  by (simp add: number_toString.simps)

lemma number_toString_big:
  "\<not> n < 10 \<Longrightarrow> number_toString n = number_toString (n div 10) @ [digit_char (n mod 10)]"
  by (subst number_toString.simps) simp

lemmas render = number_toString_small number_toString_big digit_char_def

lemma str_includes_sublist: "str_includes s pat = sublist pat s"
  by (induction s) (simp_all add: sublist_Cons_right)

lemma str_includes_middle: "str_includes (a @ pat @ b) pat"
  by (simp add: str_includes_sublist)

lemma str_includes_end: "str_includes (a @ pat) pat"
  using str_includes_middle [of a pat "[]"] by simp

lemma findExisting_loop_find:
  "findExistingAgentServer_loop procs port = find (locator_match port) procs"
  by (induction procs) (auto simp: locator_match_def)

lemma findOpenhands_loop_find:
  "findOpenhandsServer_loop procs port = find (locator_match port) procs"
  by (induction procs) (auto simp: locator_match_def)

lemma build_includes_path:
  "str_includes (buildAgentServerCommand port directory) DEFAULT_AGENT_SERVER_PATH"
proof -
  have a: "str_includes ([] @ DEFAULT_AGENT_SERVER_PATH @ b) DEFAULT_AGENT_SERVER_PATH" for b
    by (rule str_includes_middle)
  have b: "str_includes ((''cd '' @ d @ '' && '') @ DEFAULT_AGENT_SERVER_PATH @ b)
             DEFAULT_AGENT_SERVER_PATH" for b d
    by (rule str_includes_middle)
  show ?thesis
    using a b by (simp add: buildAgentServerCommand_def Let_def split: option.splits)
qed

lemma build_includes_port:
  "str_includes (buildAgentServerCommand port directory) (''--port '' @ number_toString port)"
proof -
  have a: "str_includes
             ((pre @ DEFAULT_AGENT_SERVER_PATH @ '' --host 0.0.0.0 '')
                @ (''--port '' @ number_toString port))
             (''--port '' @ number_toString port)" for pre
    by (rule str_includes_end)
  show ?thesis
    using a [of "[]"] a [of "''cd '' @ d @ '' && ''" for d]
    by (simp add: buildAgentServerCommand_def Let_def split: option.splits)
qed

lemma build_cd_prefix:
  "prefix ''cd '' (buildAgentServerCommand port directory) \<longleftrightarrow>
     (\<exists>d. directory = Some d \<and> d \<noteq> [] \<and> d \<noteq> DEFAULT_AGENT_SERVER_DIR)"
  by (auto simp: buildAgentServerCommand_def Let_def DEFAULT_AGENT_SERVER_PATH_def
           split: option.splits)

lemma performed_calls: "performed c out w = (r, w') \<Longrightarrow> calls w' = calls w @ [c]"
  by (auto simp: performed_def split: prod.splits sum.splits)

lemmas example_defs = example_sandbox_def flaky_sandbox_def listed_def launch_8001_def
  start_8001_def proc_1_def all_ok_def start_rejected_def never_ready_def logs_lost_def
  exposure_fails_def crashes_def stays_starting_def slow_start_def expose_no_hostname_def
  expose_example_com_def fresh_def after_def no_options_def performed_def
  call_listProcesses_def call_startProcess_def call_waitForPort_def call_getLogs_def
  call_kill_def call_exposePort_def call_getExposedPorts_def agent_8001_def agent_9001_def
  agent_starting_def DEFAULT_AGENT_SERVER_PATH_def DEFAULT_AGENT_SERVER_DIR_def
  DEFAULT_PORT_def locator_match_def

section \<open>The process locator\<close>

text \<open>
  Claim C4. For every process list and target port, \<^verbatim>\<open>findExistingAgentServer\<close> returns the
  first record of the list whose command line contains the agent-server binary path and
  \<^verbatim>\<open>--port N\<close> or \<^verbatim>\<open>--port=N\<close> for the target port and whose status is \<^verbatim>\<open>starting\<close> or
  \<^verbatim>\<open>running\<close>; when there is none it returns \<^verbatim>\<open>null\<close>, a normal result and not an error.
  \<^const>\<open>find\<close> is the first element of a list that satisfies a test, or \<^const>\<open>None\<close>.
\<close>

theorem locator_first_match:
  "findExistingAgentServer_loop procs port = find (locator_match port) procs \<and>
   (call_listProcesses sb w = (Inr procs, w1) \<longrightarrow>
      findExistingAgentServer sb port w = (Inr (find (locator_match port) procs), w1))"
  by (simp add: findExisting_loop_find findExistingAgentServer_def)

text \<open>
  The example of the specification, with the port 9001 process listed first: locating port
  8001 skips it and returns the 8001 record, ahead of a later record that also matches;
  locating port 7000 finds nothing.
\<close>

theorem locator_first_match_witness:
  "call_listProcesses (example_sandbox all_ok) (fresh [agent_9001, agent_8001, agent_starting])
     = (Inr [agent_9001, agent_8001, agent_starting],
        \<lparr>sbx = [agent_9001, agent_8001, agent_starting], calls = [ListProcesses], console = []\<rparr>) \<and>
   findExistingAgentServer (example_sandbox all_ok) 8001 (fresh [agent_9001, agent_8001, agent_starting])
     = (Inr (Some agent_8001),
        \<lparr>sbx = [agent_9001, agent_8001, agent_starting], calls = [ListProcesses], console = []\<rparr>) \<and>
   findExistingAgentServer (example_sandbox all_ok) 7000 (fresh [agent_9001, agent_8001, agent_starting])
     = (Inr None,
        \<lparr>sbx = [agent_9001, agent_8001, agent_starting], calls = [ListProcesses], console = []\<rparr>)"
  using locator_first_match [of "[agent_9001, agent_8001, agent_starting]" 8001 "example_sandbox all_ok"
          "fresh [agent_9001, agent_8001, agent_starting]"
          "\<lparr>sbx = [agent_9001, agent_8001, agent_starting], calls = [ListProcesses], console = []\<rparr>"]
        locator_first_match [of "[agent_9001, agent_8001, agent_starting]" 7000 "example_sandbox all_ok"
          "fresh [agent_9001, agent_8001, agent_starting]"
          "\<lparr>sbx = [agent_9001, agent_8001, agent_starting], calls = [ListProcesses], console = []\<rparr>"]
  by (simp add: example_defs render)

section \<open>The command builder\<close>

text \<open>
  Claim C8, as the code has it. \<^const>\<open>buildAgentServerCommand\<close> is a function of the port and
  the directory alone, so equal inputs give the same string. The string is the binary path,
  \<^verbatim>\<open>--host 0.0.0.0\<close> and \<^verbatim>\<open>--port N\<close>; it is prefixed with \<^verbatim>\<open>cd <directory> && \<close> exactly
  when a directory is supplied that is not the empty string and differs from the default;
  and for every port and directory the string passes the locator's command tests for the
  same port, so that a live process with this command line is located.
\<close>

theorem command_builder_shape:
  "(port = port' \<and> directory = directory' \<longrightarrow>
      buildAgentServerCommand port directory = buildAgentServerCommand port' directory') \<and>
   buildAgentServerCommand port directory =
     (case directory of
        None \<Rightarrow> []
      | Some d \<Rightarrow> if d \<noteq> [] \<and> d \<noteq> DEFAULT_AGENT_SERVER_DIR then ''cd '' @ d @ '' && '' else [])
     @ DEFAULT_AGENT_SERVER_PATH @ '' --host 0.0.0.0 --port '' @ number_toString port \<and>
   (prefix ''cd '' (buildAgentServerCommand port directory) \<longleftrightarrow>
      (\<exists>d. directory = Some d \<and> d \<noteq> [] \<and> d \<noteq> DEFAULT_AGENT_SERVER_DIR)) \<and>
   str_includes (buildAgentServerCommand port directory) DEFAULT_AGENT_SERVER_PATH \<and>
   str_includes (buildAgentServerCommand port directory) (''--port '' @ number_toString port) \<and>
   (command p = buildAgentServerCommand port directory \<and>
    (status p = ''starting'' \<or> status p = ''running'') \<longrightarrow>
      findExistingAgentServer_loop (p # rest) port = Some p)"
proof -
  have shape: "buildAgentServerCommand port directory =
     (case directory of
        None \<Rightarrow> []
      | Some d \<Rightarrow> if d \<noteq> [] \<and> d \<noteq> DEFAULT_AGENT_SERVER_DIR then ''cd '' @ d @ '' && '' else [])
     @ DEFAULT_AGENT_SERVER_PATH @ '' --host 0.0.0.0 --port '' @ number_toString port"
    by (simp add: buildAgentServerCommand_def Let_def split: option.splits)
  have found: "findExistingAgentServer_loop (p # rest) port = Some p"
    if "command p = buildAgentServerCommand port directory"
      and "status p = ''starting'' \<or> status p = ''running''"
    using that build_includes_path [of port directory] build_includes_port [of port directory]
    by auto
  show ?thesis
    using shape found build_cd_prefix build_includes_path build_includes_port by blast
qed

text \<open>Port 8001 in \<^verbatim>\<open>/workspace\<close>: the prefixed command, located ahead of a later match.\<close>

theorem command_builder_shape_witness:
  "buildAgentServerCommand 8001 (Some ''/workspace'') =
     ''cd /workspace && /container-server/software-agent-sdk/.venv/bin/agent-server --host 0.0.0.0 --port 8001'' \<and>
   prefix ''cd '' (buildAgentServerCommand 8001 (Some ''/workspace'')) \<and>
   findExistingAgentServer_loop
     [\<lparr>proc_id = ''x'', command = buildAgentServerCommand 8001 (Some ''/workspace''),
       status = ''starting''\<rparr>, agent_8001] 8001 =
     Some \<lparr>proc_id = ''x'', command = buildAgentServerCommand 8001 (Some ''/workspace''),
       status = ''starting''\<rparr>"
  using command_builder_shape
          [where port = 8001 and port' = 8001 and directory = "Some ''/workspace''"
             and directory' = "Some ''/workspace''"
             and p = "\<lparr>proc_id = ''x'',
                       command = buildAgentServerCommand 8001 (Some ''/workspace''),
                       status = ''starting''\<rparr>"
             and rest = "[agent_8001]"]
  by (simp add: DEFAULT_AGENT_SERVER_PATH_def DEFAULT_AGENT_SERVER_DIR_def render)

text \<open>
  Claim C8 as stated fails for the empty string: it is a supplied directory and differs
  from the default, yet \<^verbatim>\<open>directory && ...\<close> is false for it and no \<^verbatim>\<open>cd\<close> is prefixed.
\<close>

theorem command_builder_empty_directory_counterexample:
  "Some [] \<noteq> (None :: string option) \<and> [] \<noteq> DEFAULT_AGENT_SERVER_DIR \<and>
   \<not> prefix ''cd '' (buildAgentServerCommand 8001 (Some [])) \<and>
   buildAgentServerCommand 8001 (Some []) =
     ''/container-server/software-agent-sdk/.venv/bin/agent-server --host 0.0.0.0 --port 8001''"
  by (simp add: buildAgentServerCommand_def DEFAULT_AGENT_SERVER_PATH_def
        DEFAULT_AGENT_SERVER_DIR_def render)

section \<open>The route layer's locator\<close>

text \<open>
  Claim C10. \<^verbatim>\<open>findOpenhandsServer\<close> and \<^verbatim>\<open>findExistingAgentServer\<close> make the same selection: the
  two loops return the same process for every process list and port; run on the same
  sandbox state, one returns a handle exactly when the other returns a process, and the
  handle's process id is the id of that same first matching process, which is also the
  process its \<^verbatim>\<open>close()\<close> kills.
\<close>

theorem route_locator_agrees:
  "findOpenhandsServer_loop procs port = findExistingAgentServer_loop procs port \<and>
   ((\<exists>server. fst (findOpenhandsServer sb port w) = Inr (Some server)) \<longleftrightarrow>
    (\<exists>p. fst (findExistingAgentServer sb port w) = Inr (Some p))) \<and>
   (fst (findOpenhandsServer sb port w) = Inr None \<longleftrightarrow>
    fst (findExistingAgentServer sb port w) = Inr None) \<and>
   (fst (findOpenhandsServer sb port w) = Inr (Some server) \<longrightarrow>
      fst (findExistingAgentServer sb port w) = Inr (Some (closes server)) \<and>
      processId server = proc_id (closes server))"
proof -
  have loops: "findOpenhandsServer_loop ps port = findExistingAgentServer_loop ps port" for ps
    by (simp add: findOpenhands_loop_find findExisting_loop_find)
  show ?thesis
    unfolding findOpenhandsServer_def findExistingAgentServer_def loops
    by (auto split: prod.splits sum.splits option.splits)
qed

text \<open>Both locators pick the port 8001 process, listed second.\<close>

theorem route_locator_agrees_witness:
  "fst (findOpenhandsServer (example_sandbox all_ok) 8001 (fresh [agent_9001, agent_8001]))
     = Inr (Some \<lparr>srv_port = 8001, url = ''http://localhost:8001'', previewUrl = None,
                   processId = ''a'', closes = agent_8001\<rparr>) \<and>
   fst (findExistingAgentServer (example_sandbox all_ok) 8001 (fresh [agent_9001, agent_8001]))
     = Inr (Some agent_8001) \<and> proc_id agent_8001 = ''a''"
  using route_locator_agrees [of "[agent_9001, agent_8001]" 8001 "example_sandbox all_ok"
          "fresh [agent_9001, agent_8001]"
          "\<lparr>srv_port = 8001, url = ''http://localhost:8001'', previewUrl = None,
            processId = ''a'', closes = agent_8001\<rparr>"]
  by (simp add: findOpenhandsServer_def example_defs render)

section \<open>The coordinator, branch by branch\<close>

lemmas coordinator_defs = findExistingAgentServer_def startAgentServer_def ensureAgentServer_def
  createOpenhandsServer_def await_located_def startup_failed_def wait60_def stderr_or_empty_def
  or_else_def buildAgentServerCommand_def Let_def calls_since_def

lemma find_calls:
  "findExistingAgentServer sb port w = (r, w') \<Longrightarrow> calls w' = calls w @ [ListProcesses]"
  by (auto simp: findExistingAgentServer_def call_listProcesses_def
           dest: performed_calls split: prod.splits sum.splits)

lemma find_Some_match:
  "findExistingAgentServer sb port w = (Inr (Some p), w') \<Longrightarrow> locator_match port p"
  by (auto simp: findExistingAgentServer_def findExisting_loop_find
           split: prod.splits sum.splits dest: find_Some_iff [THEN iffD1])

lemma ensure_located:
  "findExistingAgentServer sb port w = (Inr (Some p), w1) \<Longrightarrow>
   ensureAgentServer sb port options w = await_located sb port p w1"
  by (simp add: ensureAgentServer_def await_located_def wait60_def startup_failed_def
           split: prod.splits sum.splits)

lemma ensure_recheck:
  "findExistingAgentServer sb port w = (Inr None, w1) \<Longrightarrow>
   startAgentServer sb port options w1 = (Inl startupError, w2) \<Longrightarrow>
   ensureAgentServer sb port options w =
     (case findExistingAgentServer sb port w2 of
        (Inl e, w3) \<Rightarrow> (Inl e, w3)
      | (Inr None, w3) \<Rightarrow> (Inl startupError, w3)
      | (Inr (Some p), w3) \<Rightarrow> await_located sb port p w3)"
  by (simp add: ensureAgentServer_def await_located_def wait60_def startup_failed_def
           split: prod.splits sum.splits option.splits)

lemma ensure_started:
  "findExistingAgentServer sb port w = (Inr None, w1) \<Longrightarrow>
   startAgentServer sb port options w1 = (Inr p, w2) \<Longrightarrow>
   ensureAgentServer sb port options w = (Inr p, w2)"
  by (simp add: ensureAgentServer_def)

lemma ensure_list_failed:
  "findExistingAgentServer sb port w = (Inl e, w1) \<Longrightarrow>
   ensureAgentServer sb port options w = (Inl e, w1)"
  by (simp add: ensureAgentServer_def)

lemma await_calls:
  "await_located sb port p w = (r, w') \<Longrightarrow>
   calls w' = calls w \<or>
   calls w' = calls w @ [WaitForPort (proc_id p) port wait60] \<or>
   calls w' = calls w @ [WaitForPort (proc_id p) port wait60, GetLogs (proc_id p)]"
  by (auto simp: await_located_def call_waitForPort_def call_getLogs_def
           dest!: performed_calls split: prod.splits sum.splits if_splits)

lemma start_calls:
  "startAgentServer sb port options w = (r, w') \<Longrightarrow>
   (\<exists>cmd opts rest. calls w' = calls w @ StartProcess cmd opts # rest \<and>
      filter is_StartProcess rest = [] \<and> filter (\<lambda>c. c = ListProcesses) rest = [] \<and>
      filter is_ExposePort rest = [])"
  by (auto simp: startAgentServer_def Let_def call_startProcess_def call_waitForPort_def
             call_getLogs_def
           dest!: performed_calls split: prod.splits sum.splits if_splits)

section \<open>The recheck after a failed start\<close>

text \<open>
  Claim C1. In a call to \<^verbatim>\<open>ensureAgentServer\<close> where the first locate finds no process and
  \<^verbatim>\<open>startAgentServer\<close> fails, for whatever reason, the locator is run exactly once more: the
  call lists the processes twice and starts a process once, and nothing more. If the
  recheck finds no process, the call fails with the original startup error itself. If it
  finds a process, the startup error is dropped and the outcome is that of waiting for this
  process, \<^const>\<open>await_located\<close>, which is also the outcome of any call whose first locate
  finds a process (the reuse branch).
\<close>

theorem recheck_once_after_failed_start:
  assumes "findExistingAgentServer sb port w = (Inr None, w1)"
    and "startAgentServer sb port options w1 = (Inl startupError, w2)"
    and "findExistingAgentServer sb port w2 = (found, w3)"
  shows "length (filter (\<lambda>c. c = ListProcesses)
                   (calls_since w (snd (ensureAgentServer sb port options w)))) = 2 \<and>
         length (filter is_StartProcess
                   (calls_since w (snd (ensureAgentServer sb port options w)))) = 1 \<and>
         (found = Inr None \<longrightarrow>
            ensureAgentServer sb port options w = (Inl startupError, w3)) \<and>
         (found = Inr (Some p) \<longrightarrow>
            ensureAgentServer sb port options w = await_located sb port p w3) \<and>
         (findExistingAgentServer sb port v = (Inr (Some p), v1) \<longrightarrow>
            ensureAgentServer sb port options v = await_located sb port p v1)"
proof -
  let ?out = "ensureAgentServer sb port options w"
  have out: "?out =
     (case found of
        Inl e \<Rightarrow> (Inl e, w3)
      | Inr None \<Rightarrow> (Inl startupError, w3)
      | Inr (Some p) \<Rightarrow> await_located sb port p w3)"
    using ensure_recheck [OF assms(1,2)] assms(3) by (simp split: sum.splits option.splits)
  obtain cmd opts rest where trace:
      "calls w3 = calls w @ ListProcesses # StartProcess cmd opts # rest @ [ListProcesses]"
      "filter is_StartProcess rest = []" "filter (\<lambda>c. c = ListProcesses) rest = []"
    using find_calls [OF assms(1)] start_calls [OF assms(2)] find_calls [OF assms(3)]
    by auto
  have tail: "calls (snd ?out) = calls w3 \<or>
      (\<exists>i. calls (snd ?out) = calls w3 @ [WaitForPort i port wait60]) \<or>
      (\<exists>i. calls (snd ?out) = calls w3 @ [WaitForPort i port wait60, GetLogs i])"
  proof (cases found)
    case (Inl e)
    then show ?thesis using out by simp
  next
    case (Inr o1)
    show ?thesis
    proof (cases o1)
      case None
      then show ?thesis using out Inr by simp
    next
      case (Some q)
      then have "?out = await_located sb port q w3" using out Inr by simp
      then show ?thesis
        using await_calls [of sb port q w3 "fst ?out" "snd ?out"] by auto
    qed
  qed
  have lists: "length (filter (\<lambda>c. c = ListProcesses) (calls_since w (snd ?out))) = 2"
    using tail trace by (auto simp: calls_since_def)
  have starts: "length (filter is_StartProcess (calls_since w (snd ?out))) = 1"
    using tail trace by (auto simp: calls_since_def)
  show ?thesis
    using lists starts out ensure_located by auto
qed

text \<open>
  Two runs on an empty process table. When the sandbox rejects the start, the recheck finds
  nothing and the rejection itself is the error. When the started process never answers,
  the recheck finds that process listed as running and the call returns it.
\<close>

theorem recheck_once_after_failed_start_witness:
  "findExistingAgentServer (example_sandbox start_rejected) 8001 (fresh [])
     = (Inr None, after [] [ListProcesses]) \<and>
   startAgentServer (example_sandbox start_rejected) 8001 no_options (after [] [ListProcesses])
     = (Inl (SandboxFailure ''start rejected''), after [] [ListProcesses, start_8001]) \<and>
   findExistingAgentServer (example_sandbox start_rejected) 8001
       (after [] [ListProcesses, start_8001])
     = (Inr None, after [] [ListProcesses, start_8001, ListProcesses]) \<and>
   ensureAgentServer (example_sandbox start_rejected) 8001 no_options (fresh [])
     = (Inl (SandboxFailure ''start rejected''),
        after [] [ListProcesses, start_8001, ListProcesses]) \<and>
   startAgentServer (example_sandbox never_ready) 8001 no_options (after [] [ListProcesses])
     = (Inl (startup_failed ''agent-server failed to start on port 8001. Stderr: '' 8001 proc_1
               \<lparr>stdout = [], stderr = ''boom''\<rparr> (SandboxFailure ''timed out'')),
        after [proc_1]
          [ListProcesses, start_8001, WaitForPort ''proc-1'' 8001 wait60, GetLogs ''proc-1'']) \<and>
   findExistingAgentServer (example_sandbox never_ready) 8001
       (after [proc_1]
          [ListProcesses, start_8001, WaitForPort ''proc-1'' 8001 wait60, GetLogs ''proc-1''])
     = (Inr (Some proc_1),
        after [proc_1]
          [ListProcesses, start_8001, WaitForPort ''proc-1'' 8001 wait60, GetLogs ''proc-1'',
           ListProcesses]) \<and>
   ensureAgentServer (example_sandbox never_ready) 8001 no_options (fresh [])
     = (Inr proc_1,
        after [proc_1]
          [ListProcesses, start_8001, WaitForPort ''proc-1'' 8001 wait60, GetLogs ''proc-1'',
           ListProcesses])"
  using recheck_once_after_failed_start
          [where sb = "example_sandbox start_rejected" and port = 8001 and w = "fresh []"
             and ?w1.0 = "after [] [ListProcesses]" and options = no_options
             and startupError = "SandboxFailure ''start rejected''"
             and ?w2.0 = "after [] [ListProcesses, start_8001]" and found = "Inr None"
             and ?w3.0 = "after [] [ListProcesses, start_8001, ListProcesses]"]
        recheck_once_after_failed_start
          [where sb = "example_sandbox never_ready" and port = 8001 and w = "fresh []"
             and ?w1.0 = "after [] [ListProcesses]" and options = no_options
             and startupError =
               "startup_failed ''agent-server failed to start on port 8001. Stderr: '' 8001 proc_1
                  \<lparr>stdout = [], stderr = ''boom''\<rparr> (SandboxFailure ''timed out'')"
             and ?w2.0 = "after [proc_1]
                [ListProcesses, start_8001, WaitForPort ''proc-1'' 8001 wait60, GetLogs ''proc-1'']"
             and found = "Inr (Some proc_1)" and p = proc_1
             and ?w3.0 = "after [proc_1]
                [ListProcesses, start_8001, WaitForPort ''proc-1'' 8001 wait60, GetLogs ''proc-1'',
                 ListProcesses]"]
  by (simp add: coordinator_defs example_defs render)

section \<open>Reuse of a located process\<close>

text \<open>
  Claim C2, as the code has it. In a call to \<^verbatim>\<open>ensureAgentServer\<close> where the locator finds a
  process, \<^verbatim>\<open>startProcess\<close> is never called. The process is \<^verbatim>\<open>starting\<close> or \<^verbatim>\<open>running\<close>. If
  it is running, it is returned at once. If it is starting, the readiness wait is run on it
  with the 60 second options: when the wait succeeds the process is returned; when the wait
  fails and the logs are fetched, the call fails with \<^verbatim>\<open>OpenhandsStartupError\<close> carrying the
  port and the process's id, command and captured stderr, with the wait's error as cause;
  when fetching the logs fails too, that failure is what the call fails with.
\<close>

theorem located_process_is_reused:
  assumes "findExistingAgentServer sb port w = (Inr (Some p), w1)"
  shows "filter is_StartProcess (calls_since w (snd (ensureAgentServer sb port options w))) = [] \<and>
         (status p = ''starting'' \<or> status p = ''running'') \<and>
         (status p = ''running'' \<longrightarrow> ensureAgentServer sb port options w = (Inr p, w1)) \<and>
         (status p = ''starting'' \<and> call_waitForPort sb p port wait60 w1 = (Inr u, w2) \<longrightarrow>
            ensureAgentServer sb port options w = (Inr p, w2)) \<and>
         (status p = ''starting'' \<and> call_waitForPort sb p port wait60 w1 = (Inl e, w2) \<and>
          call_getLogs sb p w2 = (Inr lg, w3) \<longrightarrow>
            ensureAgentServer sb port options w =
              (Inl (OpenhandsStartupError
                      (''agent-server failed to start. Stderr: '' @ stderr_or_empty lg)
                      \<lparr>ctx_port = port, ctx_stderr = Some (stderr lg),
                        ctx_command = Some (command p), ctx_processId = Some (proc_id p)\<rparr> e),
               w3)) \<and>
         (status p = ''starting'' \<and> call_waitForPort sb p port wait60 w1 = (Inl e, w2) \<and>
          call_getLogs sb p w2 = (Inl e', w3) \<longrightarrow>
            ensureAgentServer sb port options w = (Inl e', w3))"
proof -
  let ?out = "ensureAgentServer sb port options w"
  have out: "?out = await_located sb port p w1"
    using assms by (rule ensure_located)
  have live: "status p = ''starting'' \<or> status p = ''running''"
    using find_Some_match [OF assms] by (simp add: locator_match_def)
  have "calls w1 = calls w @ [ListProcesses]"
    using assms by (rule find_calls)
  then have nostart: "filter is_StartProcess (calls_since w (snd ?out)) = []"
    using await_calls [of sb port p w1 "fst ?out" "snd ?out"] out
    by (auto simp: calls_since_def)
  show ?thesis
    using nostart live out by (auto simp: await_located_def startup_failed_def)
qed

text \<open>A running process is returned as it is; a starting one that never answers.\<close>

theorem located_process_is_reused_witness:
  "findExistingAgentServer (example_sandbox all_ok) 8001 (fresh [agent_9001, agent_8001])
     = (Inr (Some agent_8001), after [agent_9001, agent_8001] [ListProcesses]) \<and>
   status agent_8001 = ''running'' \<and>
   ensureAgentServer (example_sandbox all_ok) 8001 no_options (fresh [agent_9001, agent_8001])
     = (Inr agent_8001, after [agent_9001, agent_8001] [ListProcesses]) \<and>
   findExistingAgentServer (example_sandbox never_ready) 8001 (fresh [agent_starting])
     = (Inr (Some agent_starting), after [agent_starting] [ListProcesses]) \<and>
   status agent_starting = ''starting'' \<and>
   call_waitForPort (example_sandbox never_ready) agent_starting 8001 wait60
       (after [agent_starting] [ListProcesses])
     = (Inl (SandboxFailure ''timed out''),
        after [agent_starting] [ListProcesses, WaitForPort ''c'' 8001 wait60]) \<and>
   call_getLogs (example_sandbox never_ready) agent_starting
       (after [agent_starting] [ListProcesses, WaitForPort ''c'' 8001 wait60])
     = (Inr \<lparr>stdout = [], stderr = ''boom''\<rparr>,
        after [agent_starting] [ListProcesses, WaitForPort ''c'' 8001 wait60, GetLogs ''c'']) \<and>
   ensureAgentServer (example_sandbox never_ready) 8001 no_options (fresh [agent_starting])
     = (Inl (OpenhandsStartupError ''agent-server failed to start. Stderr: boom''
               \<lparr>ctx_port = 8001, ctx_stderr = Some ''boom'',
                 ctx_command = Some (command agent_starting), ctx_processId = Some ''c''\<rparr>
               (SandboxFailure ''timed out'')),
        after [agent_starting] [ListProcesses, WaitForPort ''c'' 8001 wait60, GetLogs ''c''])"
  using located_process_is_reused
          [where sb = "example_sandbox all_ok" and port = 8001
             and w = "fresh [agent_9001, agent_8001]" and p = agent_8001
             and ?w1.0 = "after [agent_9001, agent_8001] [ListProcesses]"
             and options = no_options]
        located_process_is_reused
          [where sb = "example_sandbox never_ready" and port = 8001
             and w = "fresh [agent_starting]" and p = agent_starting
             and ?w1.0 = "after [agent_starting] [ListProcesses]" and options = no_options
             and e = "SandboxFailure ''timed out''"
             and ?w2.0 = "after [agent_starting] [ListProcesses, WaitForPort ''c'' 8001 wait60]"
             and lg = "\<lparr>stdout = [], stderr = ''boom''\<rparr>"
             and ?w3.0 = "after [agent_starting]
                            [ListProcesses, WaitForPort ''c'' 8001 wait60, GetLogs ''c'']"]
  by (simp add: coordinator_defs example_defs render)

text \<open>
  Claim C2 as stated fails when \<^verbatim>\<open>getLogs\<close> throws inside the \<^verbatim>\<open>catch\<close> block: the located
  process is starting, its readiness wait fails, and the call fails with the sandbox's log
  failure, not with a startup error.
\<close>

theorem located_process_logs_lost_counterexample:
  "findExistingAgentServer (example_sandbox logs_lost) 8001 (fresh [agent_starting])
     = (Inr (Some agent_starting), after [agent_starting] [ListProcesses]) \<and>
   status agent_starting = ''starting'' \<and>
   call_waitForPort (example_sandbox logs_lost) agent_starting 8001 wait60
       (after [agent_starting] [ListProcesses])
     = (Inl (SandboxFailure ''timed out''),
        after [agent_starting] [ListProcesses, WaitForPort ''c'' 8001 wait60]) \<and>
   ensureAgentServer (example_sandbox logs_lost) 8001 no_options (fresh [agent_starting])
     = (Inl (SandboxFailure ''logs unavailable''),
        after [agent_starting] [ListProcesses, WaitForPort ''c'' 8001 wait60, GetLogs ''c''])"
  by (simp add: coordinator_defs example_defs render)

text \<open>
  Every call of the coordinator begins by listing the processes, and never exposes a port.
\<close>

lemma ensure_trace:
  "\<exists>rest. calls (snd (ensureAgentServer sb port options w)) = calls w @ ListProcesses # rest \<and>
          filter is_ExposePort rest = []"
proof -
  obtain r w1 where f: "findExistingAgentServer sb port w = (r, w1)" by force
  have c1: "calls w1 = calls w @ [ListProcesses]" using f by (rule find_calls)
  show ?thesis
  proof (cases r)
    case (Inl e)
    then show ?thesis using f c1 ensure_list_failed [of sb port w e w1 options] by simp
  next
    case (Inr o1)
    show ?thesis
    proof (cases o1)
      case (Some p)
      then have "ensureAgentServer sb port options w = await_located sb port p w1"
        using f Inr ensure_located by simp
      then show ?thesis
        using c1 await_calls [of sb port p w1 "fst (await_located sb port p w1)"
                "snd (await_located sb port p w1)"]
        by auto
    next
      case None
      obtain r2 w2 where st: "startAgentServer sb port options w1 = (r2, w2)" by force
      obtain cmd opts rest where c2: "calls w2 = calls w1 @ StartProcess cmd opts # rest"
          "filter is_ExposePort rest = []"
        using start_calls [OF st] by auto
      show ?thesis
      proof (cases r2)
        case (Inr p)
        then show ?thesis
          using f None \<open>r = Inr o1\<close> st c1 c2 ensure_started [of sb port w w1 options p w2]
          by simp
      next
        case (Inl se)
        obtain r3 w3 where f3: "findExistingAgentServer sb port w2 = (r3, w3)" by force
        have c3: "calls w3 = calls w2 @ [ListProcesses]" using f3 by (rule find_calls)
        have out: "ensureAgentServer sb port options w =
            (case r3 of Inl e \<Rightarrow> (Inl e, w3) | Inr None \<Rightarrow> (Inl se, w3)
             | Inr (Some q) \<Rightarrow> await_located sb port q w3)"
          using ensure_recheck [of sb port w w1 options se w2] f None \<open>r = Inr o1\<close> st Inl f3
          by (simp split: sum.splits option.splits)
        show ?thesis
        proof (cases r3)
          case (Inl e)
          then show ?thesis using out c1 c2 c3 by simp
        next
          case (Inr o3)
          show ?thesis
          proof (cases o3)
            case None
            then show ?thesis using out Inr c1 c2 c3 by simp
          next
            case (Some q)
            then have "ensureAgentServer sb port options w = await_located sb port q w3"
              using out Inr by simp
            then show ?thesis
              using c1 c2 c3 await_calls [of sb port q w3 "fst (await_located sb port q w3)"
                      "snd (await_located sb port q w3)"]
              by auto
          qed
        qed
      qed
    qed
  qed
qed

section \<open>Port exposure\<close>

text \<open>
  Claim C3, as the code has it. With \<^verbatim>\<open>exposePort\<close> true and no hostname (absent or empty),
  \<^verbatim>\<open>createOpenhandsServer\<close> first runs \<^verbatim>\<open>ensureAgentServer\<close>: so the processes have been listed,
  and a process may have been started and waited for. If that fails, its error is the
  result. If it succeeds, the call fails with the configuration error, and the sandbox's
  \<^verbatim>\<open>exposePort\<close> is never called.
\<close>

theorem hostname_checked_after_ensure:
  assumes "opt_exposePort options = Some True" and "\<not> truthy (opt_hostname options)"
  shows "createOpenhandsServer sb options w =
           (case ensureAgentServer sb
                   (case opt_port options of Some n \<Rightarrow> n | None \<Rightarrow> DEFAULT_PORT) options w of
              (Inl e, w1) \<Rightarrow> (Inl e, w1)
            | (Inr process, w1) \<Rightarrow> (Inl (Error hostname_required), w1)) \<and>
         filter is_ExposePort (calls_since w (snd (createOpenhandsServer sb options w))) = [] \<and>
         (\<exists>rest. calls_since w (snd (createOpenhandsServer sb options w)) = ListProcesses # rest)"
proof -
  let ?port = "case opt_port options of Some n \<Rightarrow> n | None \<Rightarrow> DEFAULT_PORT"
  have out: "createOpenhandsServer sb options w =
           (case ensureAgentServer sb ?port options w of
              (Inl e, w1) \<Rightarrow> (Inl e, w1)
            | (Inr process, w1) \<Rightarrow> (Inl (Error hostname_required), w1))"
    using assms
    by (auto simp: createOpenhandsServer_def truthy_def Let_def
             split: prod.splits sum.splits option.splits)
  then have same: "snd (createOpenhandsServer sb options w) =
      snd (ensureAgentServer sb ?port options w)"
    by (simp split: prod.splits sum.splits)
  obtain rest where
    "calls (snd (ensureAgentServer sb ?port options w)) = calls w @ ListProcesses # rest"
    "filter is_ExposePort rest = []"
    using ensure_trace [of sb ?port options w] by auto
  then show ?thesis
    using out same by (simp add: calls_since_def)
qed

text \<open>
  With a running server the configuration error is raised after one listing; when the
  sandbox rejects the start, the rejection is the error and the hostname is never checked.
\<close>

theorem hostname_checked_after_ensure_witness:
  "opt_exposePort expose_no_hostname = Some True \<and>
   \<not> truthy (opt_hostname expose_no_hostname) \<and>
   createOpenhandsServer (example_sandbox all_ok) expose_no_hostname (fresh [agent_8001])
     = (Inl (Error hostname_required), after [agent_8001] [ListProcesses]) \<and>
   createOpenhandsServer (example_sandbox start_rejected) expose_no_hostname (fresh [])
     = (Inl (SandboxFailure ''start rejected''),
        after [] [ListProcesses, start_8001, ListProcesses])"
  using hostname_checked_after_ensure
          [where options = expose_no_hostname and sb = "example_sandbox all_ok"
             and w = "fresh [agent_8001]"]
        hostname_checked_after_ensure
          [where options = expose_no_hostname and sb = "example_sandbox start_rejected"
             and w = "fresh []"]
  by (simp add: truthy_def coordinator_defs example_defs render)

text \<open>
  Claim C3 as stated fails on an empty process table: by the time the configuration error
  is raised, the processes have been listed, a process has been started and is in the
  table, and its readiness has been awaited.
\<close>

theorem hostname_checked_after_spawn_counterexample:
  "opt_exposePort expose_no_hostname = Some True \<and>
   opt_hostname expose_no_hostname = None \<and>
   createOpenhandsServer (example_sandbox all_ok) expose_no_hostname (fresh [])
     = (Inl (Error hostname_required),
        after [proc_1] [ListProcesses, start_8001, WaitForPort ''proc-1'' 8001 wait60])"
  by (simp add: coordinator_defs example_defs render)

text \<open>
  Claim C7. With \<^verbatim>\<open>exposePort\<close> true and a hostname (a non-empty one: for the empty string
  no exposure call is made), if \<^verbatim>\<open>ensureAgentServer\<close> returns a process and the sandbox's
  \<^verbatim>\<open>exposePort\<close> then throws, \<^verbatim>\<open>createOpenhandsServer\<close> still returns a handle for that process,
  with \<^verbatim>\<open>previewUrl\<close> undefined; the failure goes to \<^verbatim>\<open>console.warn\<close> and nowhere else.
\<close>

theorem exposure_failure_is_swallowed:
  assumes "opt_exposePort options = Some True"
    and "opt_hostname options = Some hostname" and "hostname \<noteq> []"
    and "port = (case opt_port options of Some n \<Rightarrow> n | None \<Rightarrow> DEFAULT_PORT)"
    and "ensureAgentServer sb port options w = (Inr process, w1)"
    and "call_exposePort sb port hostname w1 = (Inl error, w2)"
  shows "createOpenhandsServer sb options w =
           (Inr \<lparr>srv_port = port, url = ''http://localhost:'' @ number_toString port,
                  previewUrl = None, processId = proc_id process, closes = process\<rparr>,
            w2\<lparr>console := console w2 @ [(''Failed to expose port:'', error)]\<rparr>)"
  using assms by (simp add: createOpenhandsServer_def Let_def)

text \<open>A server is started on an empty table, and exposing its port fails.\<close>

theorem exposure_failure_is_swallowed_witness:
  "opt_exposePort expose_example_com = Some True \<and>
   opt_hostname expose_example_com = Some ''example.com'' \<and>
   ensureAgentServer (example_sandbox exposure_fails) 8001 expose_example_com (fresh [])
     = (Inr proc_1,
        after [proc_1] [ListProcesses, start_8001, WaitForPort ''proc-1'' 8001 wait60]) \<and>
   call_exposePort (example_sandbox exposure_fails) 8001 ''example.com''
       (after [proc_1] [ListProcesses, start_8001, WaitForPort ''proc-1'' 8001 wait60])
     = (Inl (SandboxFailure ''exposure failed''),
        after [proc_1] [ListProcesses, start_8001, WaitForPort ''proc-1'' 8001 wait60,
                        ExposePort 8001 ''example.com'']) \<and>
   createOpenhandsServer (example_sandbox exposure_fails) expose_example_com (fresh [])
     = (Inr \<lparr>srv_port = 8001, url = ''http://localhost:8001'', previewUrl = None,
              processId = ''proc-1'', closes = proc_1\<rparr>,
        \<lparr>sbx = [proc_1],
          calls = [ListProcesses, start_8001, WaitForPort ''proc-1'' 8001 wait60,
                   ExposePort 8001 ''example.com''],
          console = [(''Failed to expose port:'', SandboxFailure ''exposure failed'')]\<rparr>)"
  using exposure_failure_is_swallowed
          [where options = expose_example_com and hostname = "''example.com''" and port = 8001
             and sb = "example_sandbox exposure_fails" and w = "fresh []" and process = proc_1
             and ?w1.0 = "after [proc_1] [ListProcesses, start_8001, WaitForPort ''proc-1'' 8001 wait60]"
             and error = "SandboxFailure ''exposure failed''"
             and ?w2.0 = "after [proc_1] [ListProcesses, start_8001,
                            WaitForPort ''proc-1'' 8001 wait60, ExposePort 8001 ''example.com'']"]
  by (simp add: coordinator_defs example_defs render)

section \<open>The stop route and the status route\<close>

lemma findOpenhands_none:
  "call_listProcesses sb w = (Inr procs, w1) \<Longrightarrow> find (locator_match port) procs = None \<Longrightarrow>
   findOpenhandsServer sb port w = (Inr None, w1)"
  by (simp add: findOpenhandsServer_def findOpenhands_loop_find)

lemma findOpenhands_list_failed:
  "call_listProcesses sb w = (Inl e, w1) \<Longrightarrow> findOpenhandsServer sb port w = (Inl e, w1)"
  by (simp add: findOpenhandsServer_def)

text \<open>
  Claim C9, as the code has it. For the port of the options (8001 by default): when the
  listing has no matching process, the stop route answers 404 with \<^verbatim>\<open>success: false\<close>, and
  the status route answers 200 with \<^verbatim>\<open>running: false\<close> and \<^verbatim>\<open>success: true\<close>. An error thrown
  by the listing, by \<^verbatim>\<open>close()\<close> in the stop route or by the second listing of the status
  route gives 500 with the error's message and \<^verbatim>\<open>success: false\<close>. Every response of the
  two routes carries a boolean \<^verbatim>\<open>success\<close> flag, true exactly when the status is 200; the
  stop route answers 200, 404 or 500 and the status route 200 or 500.
\<close>

theorem route_envelopes:
  assumes "port = (case opt_port options of Some n \<Rightarrow> n | None \<Rightarrow> 8001)"
  shows
  "(call_listProcesses sb w = (Inr procs, w1) \<and> find (locator_match port) procs = None \<longrightarrow>
      stop_route sb options w =
        (\<lparr>resp_status = 404,
          resp_body = JObject [(''success'', JBool False),
                               (''message'', JString ''No server running'')]\<rparr>, w1) \<and>
      status_route sb options w =
        (\<lparr>resp_status = 200,
          resp_body = JObject [(''running'', JBool False), (''success'', JBool True)]\<rparr>, w1)) \<and>
   (call_listProcesses sb w = (Inl e, w1) \<longrightarrow>
      stop_route sb options w =
        (\<lparr>resp_status = 500,
          resp_body = JObject [(''error'', JString (error_message e)),
                               (''success'', JBool False)]\<rparr>, w1) \<and>
      status_route sb options w =
        (\<lparr>resp_status = 500,
          resp_body = JObject [(''error'', JString (error_message e)),
                               (''success'', JBool False)]\<rparr>, w1)) \<and>
   (findOpenhandsServer sb port w = (Inr (Some server), w1) \<and>
    close sb server w1 = (Inl e, w2) \<longrightarrow>
      stop_route sb options w =
        (\<lparr>resp_status = 500,
          resp_body = JObject [(''error'', JString (error_message e)),
                               (''success'', JBool False)]\<rparr>, w2)) \<and>
   (findOpenhandsServer sb port w = (Inr (Some server), w1) \<and>
    call_listProcesses sb w1 = (Inl e, w2) \<longrightarrow>
      status_route sb options w =
        (\<lparr>resp_status = 500,
          resp_body = JObject [(''error'', JString (error_message e)),
                               (''success'', JBool False)]\<rparr>, w2)) \<and>
   resp_status (fst (stop_route sb options w)) \<in> {200, 404, 500} \<and>
   resp_status (fst (status_route sb options w)) \<in> {200, 500} \<and>
   success_flag (resp_body (fst (stop_route sb options w))) =
     Some (resp_status (fst (stop_route sb options w)) = 200) \<and>
   success_flag (resp_body (fst (status_route sb options w))) =
     Some (resp_status (fst (status_route sb options w)) = 200)"
proof -
  have a: "call_listProcesses sb w = (Inr procs, w1) \<and> find (locator_match port) procs = None \<longrightarrow>
      stop_route sb options w =
        (\<lparr>resp_status = 404,
          resp_body = JObject [(''success'', JBool False),
                               (''message'', JString ''No server running'')]\<rparr>, w1) \<and>
      status_route sb options w =
        (\<lparr>resp_status = 200,
          resp_body = JObject [(''running'', JBool False), (''success'', JBool True)]\<rparr>, w1)"
    using assms findOpenhands_none [of sb w procs w1 port]
    by (simp add: stop_route_def status_route_def Let_def)
  have b: "call_listProcesses sb w = (Inl e, w1) \<longrightarrow>
      stop_route sb options w =
        (\<lparr>resp_status = 500,
          resp_body = JObject [(''error'', JString (error_message e)),
                               (''success'', JBool False)]\<rparr>, w1) \<and>
      status_route sb options w =
        (\<lparr>resp_status = 500,
          resp_body = JObject [(''error'', JString (error_message e)),
                               (''success'', JBool False)]\<rparr>, w1)"
    using assms findOpenhands_list_failed [of sb w e w1 port]
    by (simp add: stop_route_def status_route_def Let_def)
  have c: "findOpenhandsServer sb port w = (Inr (Some server), w1) \<and>
    close sb server w1 = (Inl e, w2) \<longrightarrow>
      stop_route sb options w =
        (\<lparr>resp_status = 500,
          resp_body = JObject [(''error'', JString (error_message e)),
                               (''success'', JBool False)]\<rparr>, w2)"
    using assms by (simp add: stop_route_def Let_def)
  have d: "findOpenhandsServer sb port w = (Inr (Some server), w1) \<and>
    call_listProcesses sb w1 = (Inl e, w2) \<longrightarrow>
      status_route sb options w =
        (\<lparr>resp_status = 500,
          resp_body = JObject [(''error'', JString (error_message e)),
                               (''success'', JBool False)]\<rparr>, w2)"
    using assms by (simp add: status_route_def Let_def)
  have e1: "resp_status (fst (stop_route sb options w)) \<in> {200, 404, 500}"
    by (simp add: stop_route_def Let_def split: prod.splits sum.splits option.splits)
  have e2: "resp_status (fst (status_route sb options w)) \<in> {200, 500}"
    by (simp add: status_route_def Let_def split: prod.splits sum.splits option.splits)
  have f1: "success_flag (resp_body (fst (stop_route sb options w))) =
     Some (resp_status (fst (stop_route sb options w)) = 200)"
    by (simp add: stop_route_def Let_def split: prod.splits sum.splits option.splits)
  have f2: "success_flag (resp_body (fst (status_route sb options w))) =
     Some (resp_status (fst (status_route sb options w)) = 200)"
    by (simp add: status_route_def Let_def split: prod.splits sum.splits option.splits)
  show ?thesis
    using a b c d e1 e2 f1 f2 by blast
qed

text \<open>
  On the sandbox that answers one listing: nothing on port 9001; a listing that fails; a
  server found whose kill is refused; a server found and a second listing that fails.
\<close>

theorem route_envelopes_witness:
  "call_listProcesses flaky_sandbox (listed 0 []) = (Inr [agent_8001], listed 1 [ListProcesses]) \<and>
   find (locator_match 9001) [agent_8001] = None \<and>
   stop_route flaky_sandbox (no_options\<lparr>opt_port := Some 9001\<rparr>) (listed 0 [])
     = (\<lparr>resp_status = 404,
         resp_body = JObject [(''success'', JBool False),
                              (''message'', JString ''No server running'')]\<rparr>,
        listed 1 [ListProcesses]) \<and>
   status_route flaky_sandbox (no_options\<lparr>opt_port := Some 9001\<rparr>) (listed 0 [])
     = (\<lparr>resp_status = 200,
         resp_body = JObject [(''running'', JBool False), (''success'', JBool True)]\<rparr>,
        listed 1 [ListProcesses]) \<and>
   call_listProcesses flaky_sandbox (listed 1 [])
     = (Inl (SandboxFailure ''sandbox unavailable''), listed 2 [ListProcesses]) \<and>
   stop_route flaky_sandbox no_options (listed 1 [])
     = (\<lparr>resp_status = 500,
         resp_body = JObject [(''error'', JString ''sandbox unavailable''),
                              (''success'', JBool False)]\<rparr>,
        listed 2 [ListProcesses]) \<and>
   findOpenhandsServer flaky_sandbox 8001 (listed 0 [])
     = (Inr (Some \<lparr>srv_port = 8001, url = ''http://localhost:8001'', previewUrl = None,
                    processId = ''a'', closes = agent_8001\<rparr>),
        listed 1 [ListProcesses, GetExposedPorts []]) \<and>
   stop_route flaky_sandbox no_options (listed 0 [])
     = (\<lparr>resp_status = 500,
         resp_body = JObject [(''error'', JString ''kill refused''),
                              (''success'', JBool False)]\<rparr>,
        listed 1 [ListProcesses, GetExposedPorts [], Kill ''a'' ''SIGTERM'']) \<and>
   status_route flaky_sandbox no_options (listed 0 [])
     = (\<lparr>resp_status = 500,
         resp_body = JObject [(''error'', JString ''sandbox unavailable''),
                              (''success'', JBool False)]\<rparr>,
        listed 2 [ListProcesses, GetExposedPorts [], ListProcesses])"
  using route_envelopes
          [where port = 9001 and options = "no_options\<lparr>opt_port := Some 9001\<rparr>"
             and sb = flaky_sandbox and w = "listed 0 []" and procs = "[agent_8001]"
             and ?w1.0 = "listed 1 [ListProcesses]"]
        route_envelopes
          [where port = 8001 and options = no_options and sb = flaky_sandbox
             and w = "listed 1 []" and e = "SandboxFailure ''sandbox unavailable''"
             and ?w1.0 = "listed 2 [ListProcesses]"]
        route_envelopes
          [where port = 8001 and options = no_options and sb = flaky_sandbox
             and w = "listed 0 []"
             and server = "\<lparr>srv_port = 8001, url = ''http://localhost:8001'', previewUrl = None,
                            processId = ''a'', closes = agent_8001\<rparr>"
             and ?w1.0 = "listed 1 [ListProcesses, GetExposedPorts []]"
             and e = "SandboxFailure ''kill refused''"
             and ?w2.0 = "listed 1 [ListProcesses, GetExposedPorts [], Kill ''a'' ''SIGTERM'']"]
        route_envelopes
          [where port = 8001 and options = no_options and sb = flaky_sandbox
             and w = "listed 0 []"
             and server = "\<lparr>srv_port = 8001, url = ''http://localhost:8001'', previewUrl = None,
                            processId = ''a'', closes = agent_8001\<rparr>"
             and ?w1.0 = "listed 1 [ListProcesses, GetExposedPorts []]"
             and e = "SandboxFailure ''sandbox unavailable''"
             and ?w2.0 = "listed 2 [ListProcesses, GetExposedPorts [], ListProcesses]"]
  by (simp add: findOpenhandsServer_def close_def example_defs render)

text \<open>
  Claim C9 as stated fails for the status route: with no matching process the response has
  status 200, not 404.
\<close>

theorem status_route_not_found_counterexample:
  "findOpenhandsServer (example_sandbox all_ok) 8001 (fresh [agent_9001])
     = (Inr None, after [agent_9001] [ListProcesses]) \<and>
   status_route (example_sandbox all_ok) no_options (fresh [agent_9001])
     = (\<lparr>resp_status = 200,
         resp_body = JObject [(''running'', JBool False), (''success'', JBool True)]\<rparr>,
        after [agent_9001] [ListProcesses])"
  by (simp add: status_route_def findOpenhandsServer_def example_defs render)

section \<open>The startup error and its context\<close>

text \<open>
  Claim C6, as the code has it by design. Every readiness wait of the coordinator is made
  with the 60 second options. When such a wait fails and the logs of the process are then
  fetched, an \<^verbatim>\<open>OpenhandsStartupError\<close> is built from the port of the call, the command line
  and id that the sandbox reports for that process, and the captured stderr, verbatim; its
  cause is the wait's error. The call fails with this error in three cases: the wait was on
  a process found by the first locate; the wait was on the newly started process and the
  recheck finds no process; the wait was on a process of another caller that the recheck
  found still starting. When the recheck finds a running process of another caller, the
  error of the failed start is dropped and that process is returned. The command line of a
  located process is never empty, and neither is the command line the builder hands to
  \<^verbatim>\<open>startProcess\<close>. Nothing is said here of a recheck that finds the process this very
  call started.
\<close>

theorem startup_error_context:
  "(findExistingAgentServer sb port w = (Inr (Some p), w1) \<and> status p = ''starting'' \<and>
    call_waitForPort sb p port wait60 w1 = (Inl e, w2) \<and>
    call_getLogs sb p w2 = (Inr lg, w3) \<longrightarrow>
      ensureAgentServer sb port options w =
        (Inl (OpenhandsStartupError
                (''agent-server failed to start. Stderr: '' @ stderr_or_empty lg)
                \<lparr>ctx_port = port, ctx_stderr = Some (stderr lg),
                  ctx_command = Some (command p), ctx_processId = Some (proc_id p)\<rparr> e), w3) \<and>
      command p \<noteq> []) \<and>
   (findExistingAgentServer sb port w = (Inr None, w1) \<and>
    call_startProcess sb
      (buildAgentServerCommand port
         (Some (or_else (opt_directory options) DEFAULT_AGENT_SERVER_DIR)))
      \<lparr>cwd = or_else (opt_directory options) DEFAULT_AGENT_SERVER_DIR, env = opt_env options\<rparr>
      w1 = (Inr p, w2) \<and>
    call_waitForPort sb p port wait60 w2 = (Inl e, w3) \<and>
    call_getLogs sb p w3 = (Inr lg, w4) \<and>
    findExistingAgentServer sb port w4 = (Inr None, w5) \<longrightarrow>
      ensureAgentServer sb port options w =
        (Inl (OpenhandsStartupError
                (''agent-server failed to start on port '' @ number_toString port
                   @ ''. Stderr: '' @ stderr_or_empty lg)
                \<lparr>ctx_port = port, ctx_stderr = Some (stderr lg),
                  ctx_command = Some (command p), ctx_processId = Some (proc_id p)\<rparr> e), w5)) \<and>
   (findExistingAgentServer sb port w = (Inr None, w1) \<and>
    startAgentServer sb port options w1 = (Inl startupError, w2) \<and>
    findExistingAgentServer sb port w2 = (Inr (Some p), w3) \<and>
    \<not> started_here sb port options w1 p \<and> status p = ''starting'' \<and>
    call_waitForPort sb p port wait60 w3 = (Inl e, w4) \<and>
    call_getLogs sb p w4 = (Inr lg, w5) \<longrightarrow>
      ensureAgentServer sb port options w =
        (Inl (OpenhandsStartupError
                (''agent-server failed to start. Stderr: '' @ stderr_or_empty lg)
                \<lparr>ctx_port = port, ctx_stderr = Some (stderr lg),
                  ctx_command = Some (command p), ctx_processId = Some (proc_id p)\<rparr> e), w5) \<and>
      command p \<noteq> []) \<and>
   (findExistingAgentServer sb port w = (Inr None, w1) \<and>
    startAgentServer sb port options w1 = (Inl startupError, w2) \<and>
    findExistingAgentServer sb port w2 = (Inr (Some p), w3) \<and>
    \<not> started_here sb port options w1 p \<and> status p = ''running'' \<longrightarrow>
      ensureAgentServer sb port options w = (Inr p, w3)) \<and>
   buildAgentServerCommand port directory \<noteq> []"
proof -
  have nonempty: "command q \<noteq> []" if "findExistingAgentServer sb port v = (Inr (Some q), v1)"
    for q v v1
    using find_Some_match [OF that]
    by (auto simp: locator_match_def DEFAULT_AGENT_SERVER_PATH_def)
  have reuse: "ensureAgentServer sb port options w =
        (Inl (OpenhandsStartupError
                (''agent-server failed to start. Stderr: '' @ stderr_or_empty lg)
                \<lparr>ctx_port = port, ctx_stderr = Some (stderr lg),
                  ctx_command = Some (command p), ctx_processId = Some (proc_id p)\<rparr> e), w3)"
    if "findExistingAgentServer sb port w = (Inr (Some p), w1)" "status p = ''starting''"
      "call_waitForPort sb p port wait60 w1 = (Inl e, w2)"
      "call_getLogs sb p w2 = (Inr lg, w3)"
    using that ensure_located [OF that(1), of options]
    by (simp add: await_located_def startup_failed_def)
  have started: "ensureAgentServer sb port options w =
        (Inl (OpenhandsStartupError
                (''agent-server failed to start on port '' @ number_toString port
                   @ ''. Stderr: '' @ stderr_or_empty lg)
                \<lparr>ctx_port = port, ctx_stderr = Some (stderr lg),
                  ctx_command = Some (command p), ctx_processId = Some (proc_id p)\<rparr> e), w5)"
    if "findExistingAgentServer sb port w = (Inr None, w1)"
      "call_startProcess sb
        (buildAgentServerCommand port
           (Some (or_else (opt_directory options) DEFAULT_AGENT_SERVER_DIR)))
        \<lparr>cwd = or_else (opt_directory options) DEFAULT_AGENT_SERVER_DIR, env = opt_env options\<rparr>
        w1 = (Inr p, w2)"
      "call_waitForPort sb p port wait60 w2 = (Inl e, w3)"
      "call_getLogs sb p w3 = (Inr lg, w4)"
      "findExistingAgentServer sb port w4 = (Inr None, w5)"
  proof -
    have "startAgentServer sb port options w1 =
        (Inl (OpenhandsStartupError
                (''agent-server failed to start on port '' @ number_toString port
                   @ ''. Stderr: '' @ stderr_or_empty lg)
                \<lparr>ctx_port = port, ctx_stderr = Some (stderr lg),
                  ctx_command = Some (command p), ctx_processId = Some (proc_id p)\<rparr> e), w4)"
      using that(2,3,4) by (simp add: startAgentServer_def Let_def wait60_def)
    then show ?thesis
      using ensure_recheck [OF that(1)] that(5) by simp
  qed
  have recheck: "ensureAgentServer sb port options w =
        (Inl (OpenhandsStartupError
                (''agent-server failed to start. Stderr: '' @ stderr_or_empty lg)
                \<lparr>ctx_port = port, ctx_stderr = Some (stderr lg),
                  ctx_command = Some (command p), ctx_processId = Some (proc_id p)\<rparr> e), w5)"
    if "findExistingAgentServer sb port w = (Inr None, w1)"
      "startAgentServer sb port options w1 = (Inl startupError, w2)"
      "findExistingAgentServer sb port w2 = (Inr (Some p), w3)" "status p = ''starting''"
      "call_waitForPort sb p port wait60 w3 = (Inl e, w4)"
      "call_getLogs sb p w4 = (Inr lg, w5)"
    using that ensure_recheck [OF that(1,2)]
    by (simp add: await_located_def startup_failed_def)
  have rival: "ensureAgentServer sb port options w = (Inr p, w3)"
    if "findExistingAgentServer sb port w = (Inr None, w1)"
      "startAgentServer sb port options w1 = (Inl startupError, w2)"
      "findExistingAgentServer sb port w2 = (Inr (Some p), w3)" "status p = ''running''"
    using that ensure_recheck [OF that(1,2)]
    by (simp add: await_located_def)
  have built: "buildAgentServerCommand port directory \<noteq> []"
    by (simp add: buildAgentServerCommand_def Let_def DEFAULT_AGENT_SERVER_PATH_def
             split: option.splits)
  show ?thesis
    using nonempty reuse started recheck rival built by blast
qed

text \<open>
  The four cases: a listed process that stays unready; a started process that never
  answers and is listed as failed; a lost race against a server that is still starting and
  does not answer either; a lost race against a running server, which is returned.
\<close>

theorem startup_error_context_witness:
  "findExistingAgentServer (example_sandbox never_ready) 8001 (fresh [agent_starting])
     = (Inr (Some agent_starting), after [agent_starting] [ListProcesses]) \<and>
   call_waitForPort (example_sandbox never_ready) agent_starting 8001 wait60
       (after [agent_starting] [ListProcesses])
     = (Inl (SandboxFailure ''timed out''),
        after [agent_starting] [ListProcesses, WaitForPort ''c'' 8001 wait60]) \<and>
   ensureAgentServer (example_sandbox never_ready) 8001 no_options (fresh [agent_starting])
     = (Inl (OpenhandsStartupError ''agent-server failed to start. Stderr: boom''
               \<lparr>ctx_port = 8001, ctx_stderr = Some ''boom'',
                 ctx_command = Some (command agent_starting), ctx_processId = Some ''c''\<rparr>
               (SandboxFailure ''timed out'')),
        after [agent_starting] [ListProcesses, WaitForPort ''c'' 8001 wait60, GetLogs ''c'']) \<and>
   call_waitForPort (example_sandbox crashes) (proc_1\<lparr>status := ''failed''\<rparr>) 8001 wait60
       (after [proc_1\<lparr>status := ''failed''\<rparr>] [ListProcesses, start_8001])
     = (Inl (SandboxFailure ''timed out''),
        after [proc_1\<lparr>status := ''failed''\<rparr>]
          [ListProcesses, start_8001, WaitForPort ''proc-1'' 8001 wait60]) \<and>
   ensureAgentServer (example_sandbox crashes) 8001 no_options (fresh [])
     = (Inl (OpenhandsStartupError ''agent-server failed to start on port 8001. Stderr: boom''
               \<lparr>ctx_port = 8001, ctx_stderr = Some ''boom'',
                 ctx_command = Some launch_8001, ctx_processId = Some ''proc-1''\<rparr>
               (SandboxFailure ''timed out'')),
        after [proc_1\<lparr>status := ''failed''\<rparr>]
          [ListProcesses, start_8001, WaitForPort ''proc-1'' 8001 wait60, GetLogs ''proc-1'',
           ListProcesses]) \<and>
   findExistingAgentServer (race_sandbox agent_starting) 8001
       (after [agent_starting, proc_1]
          [ListProcesses, start_8001, WaitForPort ''proc-1'' 8001 wait60, GetLogs ''proc-1''])
     = (Inr (Some agent_starting),
        after [agent_starting, proc_1]
          [ListProcesses, start_8001, WaitForPort ''proc-1'' 8001 wait60, GetLogs ''proc-1'',
           ListProcesses]) \<and>
   \<not> started_here (race_sandbox agent_starting) 8001 no_options (after [] [ListProcesses])
       agent_starting \<and>
   ensureAgentServer (race_sandbox agent_starting) 8001 no_options (fresh [])
     = (Inl (OpenhandsStartupError
               ''agent-server failed to start. Stderr: address already in use''
               \<lparr>ctx_port = 8001, ctx_stderr = Some ''address already in use'',
                 ctx_command = Some (command agent_starting), ctx_processId = Some ''c''\<rparr>
               (SandboxFailure ''timed out'')),
        after [agent_starting, proc_1]
          [ListProcesses, start_8001, WaitForPort ''proc-1'' 8001 wait60, GetLogs ''proc-1'',
           ListProcesses, WaitForPort ''c'' 8001 wait60, GetLogs ''c'']) \<and>
   \<not> started_here (race_sandbox agent_8001) 8001 no_options (after [] [ListProcesses])
       agent_8001 \<and>
   ensureAgentServer (race_sandbox agent_8001) 8001 no_options (fresh [])
     = (Inr agent_8001,
        after [agent_8001, proc_1]
          [ListProcesses, start_8001, WaitForPort ''proc-1'' 8001 wait60, GetLogs ''proc-1'',
           ListProcesses])"
  using startup_error_context
          [where sb = "example_sandbox never_ready" and port = 8001 and options = no_options
             and w = "fresh [agent_starting]" and p = agent_starting
             and ?w1.0 = "after [agent_starting] [ListProcesses]"
             and e = "SandboxFailure ''timed out''"
             and ?w2.0 = "after [agent_starting] [ListProcesses, WaitForPort ''c'' 8001 wait60]"
             and lg = "\<lparr>stdout = [], stderr = ''boom''\<rparr>"
             and ?w3.0 = "after [agent_starting]
                            [ListProcesses, WaitForPort ''c'' 8001 wait60, GetLogs ''c'']"]
        startup_error_context
          [where sb = "example_sandbox crashes" and port = 8001 and options = no_options
             and w = "fresh []" and p = "proc_1\<lparr>status := ''failed''\<rparr>"
             and ?w1.0 = "after [] [ListProcesses]"
             and ?w2.0 = "after [proc_1\<lparr>status := ''failed''\<rparr>] [ListProcesses, start_8001]"
             and e = "SandboxFailure ''timed out''"
             and ?w3.0 = "after [proc_1\<lparr>status := ''failed''\<rparr>]
                            [ListProcesses, start_8001, WaitForPort ''proc-1'' 8001 wait60]"
             and lg = "\<lparr>stdout = [], stderr = ''boom''\<rparr>"
             and ?w4.0 = "after [proc_1\<lparr>status := ''failed''\<rparr>]
                            [ListProcesses, start_8001, WaitForPort ''proc-1'' 8001 wait60,
                             GetLogs ''proc-1'']"
             and ?w5.0 = "after [proc_1\<lparr>status := ''failed''\<rparr>]
                            [ListProcesses, start_8001, WaitForPort ''proc-1'' 8001 wait60,
                             GetLogs ''proc-1'', ListProcesses]"]
        startup_error_context
          [where sb = "race_sandbox agent_starting" and port = 8001 and options = no_options
             and w = "fresh []" and p = agent_starting
             and ?w1.0 = "after [] [ListProcesses]"
             and startupError =
               "OpenhandsStartupError
                  ''agent-server failed to start on port 8001. Stderr: address already in use''
                  \<lparr>ctx_port = 8001, ctx_stderr = Some ''address already in use'',
                    ctx_command = Some launch_8001, ctx_processId = Some ''proc-1''\<rparr>
                  (SandboxFailure ''timed out'')"
             and ?w2.0 = "after [agent_starting, proc_1]
                            [ListProcesses, start_8001, WaitForPort ''proc-1'' 8001 wait60,
                             GetLogs ''proc-1'']"
             and ?w3.0 = "after [agent_starting, proc_1]
                            [ListProcesses, start_8001, WaitForPort ''proc-1'' 8001 wait60,
                             GetLogs ''proc-1'', ListProcesses]"
             and e = "SandboxFailure ''timed out''"
             and ?w4.0 = "after [agent_starting, proc_1]
                            [ListProcesses, start_8001, WaitForPort ''proc-1'' 8001 wait60,
                             GetLogs ''proc-1'', ListProcesses, WaitForPort ''c'' 8001 wait60]"
             and lg = "\<lparr>stdout = [], stderr = ''address already in use''\<rparr>"
             and ?w5.0 = "after [agent_starting, proc_1]
                            [ListProcesses, start_8001, WaitForPort ''proc-1'' 8001 wait60,
                             GetLogs ''proc-1'', ListProcesses, WaitForPort ''c'' 8001 wait60,
                             GetLogs ''c'']"]
        startup_error_context
          [where sb = "race_sandbox agent_8001" and port = 8001 and options = no_options
             and w = "fresh []" and p = agent_8001
             and ?w1.0 = "after [] [ListProcesses]"
             and startupError =
               "OpenhandsStartupError
                  ''agent-server failed to start on port 8001. Stderr: address already in use''
                  \<lparr>ctx_port = 8001, ctx_stderr = Some ''address already in use'',
                    ctx_command = Some launch_8001, ctx_processId = Some ''proc-1''\<rparr>
                  (SandboxFailure ''timed out'')"
             and ?w2.0 = "after [agent_8001, proc_1]
                            [ListProcesses, start_8001, WaitForPort ''proc-1'' 8001 wait60,
                             GetLogs ''proc-1'']"
             and ?w3.0 = "after [agent_8001, proc_1]
                            [ListProcesses, start_8001, WaitForPort ''proc-1'' 8001 wait60,
                             GetLogs ''proc-1'', ListProcesses]"]
  by (simp add: started_here_def race_sandbox_def coordinator_defs example_defs render)

text \<open>
  Claim C6 as stated fails in a lost race: the readiness wait on the process this call
  started fails and its logs are fetched, but the recheck finds the running server of a
  concurrent caller, listed ahead of the call's own process, and the call returns that
  server instead of failing.
\<close>

theorem lost_race_counterexample:
  "call_waitForPort (race_sandbox agent_8001) proc_1 8001 wait60
       (after [agent_8001, proc_1] [ListProcesses, start_8001])
     = (Inl (SandboxFailure ''timed out''),
        after [agent_8001, proc_1]
          [ListProcesses, start_8001, WaitForPort ''proc-1'' 8001 wait60]) \<and>
   \<not> started_here (race_sandbox agent_8001) 8001 no_options (after [] [ListProcesses])
       agent_8001 \<and>
   proc_id agent_8001 \<noteq> proc_id proc_1 \<and>
   ensureAgentServer (race_sandbox agent_8001) 8001 no_options (fresh [])
     = (Inr agent_8001,
        after [agent_8001, proc_1]
          [ListProcesses, start_8001, WaitForPort ''proc-1'' 8001 wait60, GetLogs ''proc-1'',
           ListProcesses])"
  by (simp add: started_here_def race_sandbox_def coordinator_defs example_defs render)

section \<open>Idempotence on a steady sandbox\<close>

lemma find_append:
  "find P (xs @ ys) = (case find P xs of None \<Rightarrow> find P ys | Some x \<Rightarrow> Some x)"
  by (induction xs) simp_all

lemma undisturbed_refl: "undisturbed table ready s s"
  by (simp add: undisturbed_def)

lemma undisturbed_trans:
  "undisturbed table ready s s' \<Longrightarrow> undisturbed table ready s' s'' \<Longrightarrow>
   undisturbed table ready s s''"
  by (simp add: undisturbed_def)

lemma steady_list:
  assumes "steady sb table ready" and "call_listProcesses sb w = (r, w')"
  shows "r = Inr (table (sbx w)) \<and> undisturbed table ready (sbx w) (sbx w')"
proof -
  have "fst (listProcesses sb (sbx w)) = Inr (table (sbx w))"
    and "undisturbed table ready (sbx w) (snd (listProcesses sb (sbx w)))"
    using assms(1) by (simp_all add: steady_def)
  then show ?thesis
    using assms(2)
    by (auto simp: call_listProcesses_def performed_def split: prod.splits sum.splits)
qed

lemma steady_find:
  assumes "steady sb table ready" and "findExistingAgentServer sb port w = (r, w')"
  shows "r = Inr (find (locator_match port) (table (sbx w))) \<and>
         undisturbed table ready (sbx w) (sbx w')"
proof -
  obtain r0 where l: "call_listProcesses sb w = (r0, w')"
    using assms(2) by (auto simp: findExistingAgentServer_def split: prod.splits sum.splits)
  have "r0 = Inr (table (sbx w))" and u: "undisturbed table ready (sbx w) (sbx w')"
    using steady_list [OF assms(1) l] by simp_all
  then show ?thesis
    using assms(2) l by (simp add: findExistingAgentServer_def findExisting_loop_find)
qed

lemma steady_wait:
  assumes "steady sb table ready" and "call_waitForPort sb p port opts w = (r, w')"
  shows "undisturbed table ready (sbx w) (sbx w') \<and>
         (case r of Inl e \<Rightarrow> \<not> ready (sbx w) (proc_id p) port
          | Inr u \<Rightarrow> ready (sbx w') (proc_id p) port)"
proof -
  have "undisturbed table ready (sbx w) (snd (waitForPort sb p port opts (sbx w)))"
    and "case fst (waitForPort sb p port opts (sbx w)) of
           Inl f \<Rightarrow> \<not> ready (sbx w) (proc_id p) port
         | Inr u \<Rightarrow> ready (snd (waitForPort sb p port opts (sbx w))) (proc_id p) port"
    using assms(1) by (simp_all add: steady_def)
  then show ?thesis
    using assms(2)
    by (auto simp: call_waitForPort_def performed_def split: prod.splits sum.splits)
qed

lemma steady_expose:
  assumes "steady sb table ready" and "call_exposePort sb port hostname w = (r, w')"
  shows "undisturbed table ready (sbx w) (sbx w')"
proof -
  have "undisturbed table ready (sbx w) (snd (exposePort sb port hostname (sbx w)))"
    using assms(1) by (simp add: steady_def)
  then show ?thesis
    using assms(2)
    by (auto simp: call_exposePort_def performed_def split: prod.splits sum.splits)
qed

lemma steady_start:
  assumes "steady sb table ready" and "call_startProcess sb cmd opts w = (Inr p, w')"
  shows "table (sbx w') = table (sbx w) @ [p] \<and> command p = cmd \<and>
         (status p = ''starting'' \<or> status p = ''running'')"
proof -
  have "case startProcess sb cmd opts (sbx w) of
          (Inl f, s') \<Rightarrow> undisturbed table ready (sbx w) s'
        | (Inr p, s') \<Rightarrow>
            table s' = table (sbx w) @ [p] \<and> command p = cmd \<and>
            (status p = ''starting'' \<or> status p = ''running'') \<and>
            (\<forall>i n. ready (sbx w) i n \<longrightarrow> ready s' i n)"
    using assms(1) by (simp add: steady_def)
  then show ?thesis
    using assms(2)
    by (auto simp: call_startProcess_def performed_def split: prod.splits sum.splits)
qed

lemma settled_undisturbed:
  "settled table ready port p s \<Longrightarrow> undisturbed table ready s s' \<Longrightarrow>
   settled table ready port p s'"
  by (simp add: settled_def undisturbed_def)

lemma await_settles:
  assumes st: "steady sb table ready"
    and found: "find (locator_match port) (table (sbx v)) = Some q"
    and out: "await_located sb port q v = (Inr p, v')"
  shows "p = q \<and> settled table ready port p (sbx v')"
proof (cases "status q = ''starting''")
  case False
  then show ?thesis using found out by (simp add: await_located_def settled_def)
next
  case True
  obtain r v1 where w: "call_waitForPort sb q port wait60 v = (r, v1)" by force
  show ?thesis
  proof (cases r)
    case (Inl e)
    then show ?thesis
      using True w out by (simp add: await_located_def split: prod.splits sum.splits)
  next
    case (Inr u)
    then have "p = q" "v' = v1" using True w out by (simp_all add: await_located_def)
    moreover have "undisturbed table ready (sbx v) (sbx v1)" "ready (sbx v1) (proc_id q) port"
      using steady_wait [OF st w] Inr by simp_all
    ultimately show ?thesis
      using found by (simp add: settled_def undisturbed_def)
  qed
qed

lemma start_settles:
  assumes st: "steady sb table ready"
    and none: "find (locator_match port) (table (sbx v)) = None"
    and out: "startAgentServer sb port options v = (Inr p, v')"
  shows "settled table ready port p (sbx v')"
proof -
  let ?dir = "or_else (opt_directory options) DEFAULT_AGENT_SERVER_DIR"
  let ?cmd = "buildAgentServerCommand port (Some ?dir)"
  obtain r1 v1 where s1: "call_startProcess sb ?cmd \<lparr>cwd = ?dir, env = opt_env options\<rparr> v = (r1, v1)"
    by force
  then obtain p1 where r1: "r1 = Inr p1"
    using out by (cases r1) (simp_all add: startAgentServer_def Let_def)
  obtain r2 v2 where s2: "call_waitForPort sb p1 port wait60 v1 = (r2, v2)" by force
  have ok: "r2 = Inr ()" "p = p1" "v' = v2"
    using out s1 r1 s2
    by (cases r2; simp add: startAgentServer_def Let_def wait60_def split: prod.splits sum.splits)+
  have tab: "table (sbx v1) = table (sbx v) @ [p1]" "command p1 = ?cmd"
      "status p1 = ''starting'' \<or> status p1 = ''running''"
    using steady_start [OF st s1 [unfolded r1]] by simp_all
  have m: "locator_match port p1"
    using tab(2,3) build_includes_path [of port "Some ?dir"] build_includes_port [of port "Some ?dir"]
    by (simp add: locator_match_def)
  have "find (locator_match port) (table (sbx v1)) = Some p1"
    using none m tab(1) by (simp add: find_append)
  moreover have "undisturbed table ready (sbx v1) (sbx v2)" "ready (sbx v2) (proc_id p1) port"
    using steady_wait [OF st s2] ok(1) by simp_all
  ultimately show ?thesis
    using ok by (simp add: settled_def undisturbed_def)
qed

lemma ensure_settles:
  assumes st: "steady sb table ready"
    and out: "ensureAgentServer sb port options w = (Inr p, w')"
  shows "settled table ready port p (sbx w')"
proof -
  obtain r1 w1 where f1: "findExistingAgentServer sb port w = (r1, w1)" by force
  have r1: "r1 = Inr (find (locator_match port) (table (sbx w)))"
    and u1: "undisturbed table ready (sbx w) (sbx w1)"
    using steady_find [OF st f1] by simp_all
  show ?thesis
  proof (cases "find (locator_match port) (table (sbx w))")
    case (Some q)
    then have "await_located sb port q w1 = (Inr p, w')"
      using ensure_located [of sb port w q w1 options] f1 r1 out by simp
    moreover have "find (locator_match port) (table (sbx w1)) = Some q"
      using Some u1 by (simp add: undisturbed_def)
    ultimately show ?thesis using await_settles [OF st] by blast
  next
    case None
    then have f1': "findExistingAgentServer sb port w = (Inr None, w1)" using f1 r1 by simp
    have none1: "find (locator_match port) (table (sbx w1)) = None"
      using None u1 by (simp add: undisturbed_def)
    obtain r2 w2 where s2: "startAgentServer sb port options w1 = (r2, w2)" by force
    show ?thesis
    proof (cases r2)
      case (Inr p2)
      then have "p = p2" "w' = w2"
        using ensure_started [OF f1', of options p2 w2] s2 out by simp_all
      then show ?thesis using start_settles [OF st none1] s2 Inr by simp
    next
      case (Inl se)
      obtain r3 w3 where f3: "findExistingAgentServer sb port w2 = (r3, w3)" by force
      have r3: "r3 = Inr (find (locator_match port) (table (sbx w2)))"
        and u3: "undisturbed table ready (sbx w2) (sbx w3)"
        using steady_find [OF st f3] by simp_all
      have e: "ensureAgentServer sb port options w =
          (case r3 of Inl e \<Rightarrow> (Inl e, w3) | Inr None \<Rightarrow> (Inl se, w3)
           | Inr (Some q) \<Rightarrow> await_located sb port q w3)"
        using ensure_recheck [OF f1', of options se w2] s2 Inl f3
        by (simp split: sum.splits option.splits)
      show ?thesis
      proof (cases "find (locator_match port) (table (sbx w2))")
        case None
        then show ?thesis using e r3 out by simp
      next
        case (Some q)
        then have "await_located sb port q w3 = (Inr p, w')" using e r3 out by simp
        moreover have "find (locator_match port) (table (sbx w3)) = Some q"
          using Some u3 by (simp add: undisturbed_def)
        ultimately show ?thesis using await_settles [OF st] by blast
      qed
    qed
  qed
qed

lemma ensure_when_settled:
  assumes st: "steady sb table ready"
    and settled: "settled table ready port p (sbx v)"
  shows "\<exists>v'. ensureAgentServer sb port options v = (Inr p, v') \<and>
              filter is_StartProcess (calls_since v v') = [] \<and>
              undisturbed table ready (sbx v) (sbx v')"
proof -
  obtain r1 v1 where f1: "findExistingAgentServer sb port v = (r1, v1)" by force
  have r1: "r1 = Inr (Some p)" and u1: "undisturbed table ready (sbx v) (sbx v1)"
    using steady_find [OF st f1] settled by (simp_all add: settled_def)
  have c1: "calls v1 = calls v @ [ListProcesses]" using f1 by (rule find_calls)
  have e: "ensureAgentServer sb port options v = await_located sb port p v1"
    using ensure_located [of sb port v p v1 options] f1 r1 by simp
  show ?thesis
  proof (cases "status p = ''starting''")
    case False
    then show ?thesis using e c1 u1 by (simp add: await_located_def calls_since_def)
  next
    case True
    then have "ready (sbx v1) (proc_id p) port"
      using settled u1 by (simp add: settled_def undisturbed_def)
    obtain r2 v2 where w2: "call_waitForPort sb p port wait60 v1 = (r2, v2)" by force
    have u2: "undisturbed table ready (sbx v1) (sbx v2)"
      and r2: "r2 = Inr ()"
      using steady_wait [OF st w2] \<open>ready (sbx v1) (proc_id p) port\<close>
      by (cases r2; simp)+
    have c2: "calls v2 = calls v1 @ [WaitForPort (proc_id p) port wait60]"
      using w2 by (auto simp: call_waitForPort_def dest: performed_calls)
    have "ensureAgentServer sb port options v = (Inr p, v2)"
      using e True w2 r2 by (simp add: await_located_def)
    then show ?thesis
      using c1 c2 undisturbed_trans [OF u1 u2] by (simp add: calls_since_def)
  qed
qed

text \<open>
  Claim C5. On a steady sandbox (its process table changes only by the calls made to it),
  if a call to \<^verbatim>\<open>createOpenhandsServer\<close> returns a handle, then a second call with the same
  options, made in the state the first call left, also returns a handle; both handles carry
  the same process id, and the second call never calls \<^verbatim>\<open>startProcess\<close>.
\<close>

theorem ensure_twice_same_process:
  assumes st: "steady sb table ready"
    and first: "createOpenhandsServer sb options w = (Inr h1, w1)"
  shows "\<exists>h2 w2. createOpenhandsServer sb options w1 = (Inr h2, w2) \<and>
                 processId h2 = processId h1 \<and>
                 filter is_StartProcess (calls_since w1 w2) = []"
proof -
  let ?port = "case opt_port options of Some n \<Rightarrow> n | None \<Rightarrow> DEFAULT_PORT"
  obtain r wa where e1: "ensureAgentServer sb ?port options w = (r, wa)" by force
  then obtain p where r: "r = Inr p"
    using first by (cases r) (simp_all add: createOpenhandsServer_def Let_def)
  have s1: "settled table ready ?port p (sbx wa)"
    using ensure_settles [OF st] e1 r by simp
  have id1: "processId h1 = proc_id p"
    using first e1 r
    by (auto simp: createOpenhandsServer_def Let_def
             split: if_splits option.splits prod.splits sum.splits)
  have u1: "undisturbed table ready (sbx wa) (sbx w1)"
  proof (cases "opt_exposePort options = Some True")
    case False
    then show ?thesis
      using first e1 r by (simp add: createOpenhandsServer_def Let_def undisturbed_refl)
  next
    case True
    then obtain hostname where h: "opt_hostname options = Some hostname" "hostname \<noteq> []"
      using first e1 r
      by (auto simp: createOpenhandsServer_def Let_def split: option.splits if_splits)
    obtain rx wx where x: "call_exposePort sb ?port hostname wa = (rx, wx)" by force
    have "sbx w1 = sbx wx"
      using first e1 r True h x
      by (cases rx) (auto simp: createOpenhandsServer_def Let_def)
    then show ?thesis using steady_expose [OF st x] by simp
  qed
  have s2: "settled table ready ?port p (sbx w1)"
    using s1 u1 by (rule settled_undisturbed)
  obtain wb where e2: "ensureAgentServer sb ?port options w1 = (Inr p, wb)"
    and n2: "filter is_StartProcess (calls_since w1 wb) = []"
    using ensure_when_settled [OF st s2, of options] by blast
  obtain rest where tr: "calls wb = calls w1 @ rest" "filter is_StartProcess rest = []"
    using ensure_trace [of sb ?port options w1] e2 n2 by (auto simp: calls_since_def)
  show ?thesis
  proof (cases "opt_exposePort options = Some True")
    case False
    then show ?thesis
      using e2 n2 id1 by (simp add: createOpenhandsServer_def Let_def)
  next
    case True
    then obtain hostname where h: "opt_hostname options = Some hostname" "hostname \<noteq> []"
      using first e1 r
      by (auto simp: createOpenhandsServer_def Let_def split: option.splits if_splits)
    obtain rx wx where x: "call_exposePort sb ?port hostname wb = (rx, wx)" by force
    have cx: "calls wx = calls wb @ [ExposePort ?port hostname]"
      using x by (auto simp: call_exposePort_def dest: performed_calls)
    show ?thesis
      using e2 True h x cx tr id1
      by (cases rx) (auto simp: createOpenhandsServer_def Let_def calls_since_def)
  qed
qed

text \<open>
  Two calls in a row on an empty table, with port exposure: the second call lists, exposes
  again and returns the process the first call started. And the same when the started
  process stays listed as starting: the second call waits for it again.
\<close>

theorem ensure_twice_same_process_witness:
  "steady (example_sandbox all_ok) (\<lambda>s. s) (\<lambda>s i n. True) \<and>
   createOpenhandsServer (example_sandbox all_ok) expose_example_com (fresh [])
     = (Inr \<lparr>srv_port = 8001, url = ''http://localhost:8001'',
              previewUrl = Some ''https://example.com'', processId = ''proc-1'',
              closes = proc_1\<rparr>,
        after [proc_1] [ListProcesses, start_8001, WaitForPort ''proc-1'' 8001 wait60,
                        ExposePort 8001 ''example.com'']) \<and>
   createOpenhandsServer (example_sandbox all_ok) expose_example_com
       (after [proc_1] [ListProcesses, start_8001, WaitForPort ''proc-1'' 8001 wait60,
                        ExposePort 8001 ''example.com''])
     = (Inr \<lparr>srv_port = 8001, url = ''http://localhost:8001'',
              previewUrl = Some ''https://example.com'', processId = ''proc-1'',
              closes = proc_1\<rparr>,
        after [proc_1] [ListProcesses, start_8001, WaitForPort ''proc-1'' 8001 wait60,
                        ExposePort 8001 ''example.com'', ListProcesses,
                        ExposePort 8001 ''example.com'']) \<and>
   steady (example_sandbox slow_start) (\<lambda>s. s) (\<lambda>s i n. True) \<and>
   createOpenhandsServer (example_sandbox slow_start) no_options (fresh [])
     = (Inr \<lparr>srv_port = 8001, url = ''http://localhost:8001'', previewUrl = None,
              processId = ''proc-1'', closes = proc_1\<lparr>status := ''starting''\<rparr>\<rparr>,
        after [proc_1\<lparr>status := ''starting''\<rparr>]
          [ListProcesses, start_8001, WaitForPort ''proc-1'' 8001 wait60]) \<and>
   createOpenhandsServer (example_sandbox slow_start) no_options
       (after [proc_1\<lparr>status := ''starting''\<rparr>]
          [ListProcesses, start_8001, WaitForPort ''proc-1'' 8001 wait60])
     = (Inr \<lparr>srv_port = 8001, url = ''http://localhost:8001'', previewUrl = None,
              processId = ''proc-1'', closes = proc_1\<lparr>status := ''starting''\<rparr>\<rparr>,
        after [proc_1\<lparr>status := ''starting''\<rparr>]
          [ListProcesses, start_8001, WaitForPort ''proc-1'' 8001 wait60, ListProcesses,
           WaitForPort ''proc-1'' 8001 wait60])"
  using ensure_twice_same_process
          [where sb = "example_sandbox all_ok" and table = "\<lambda>s. s" and ready = "\<lambda>s i n. True"
             and options = expose_example_com and w = "fresh []"
             and ?h1.0 = "\<lparr>srv_port = 8001, url = ''http://localhost:8001'',
                           previewUrl = Some ''https://example.com'', processId = ''proc-1'',
                           closes = proc_1\<rparr>"
             and ?w1.0 = "after [proc_1] [ListProcesses, start_8001,
                            WaitForPort ''proc-1'' 8001 wait60, ExposePort 8001 ''example.com'']"]
        ensure_twice_same_process
          [where sb = "example_sandbox slow_start" and table = "\<lambda>s. s"
             and ready = "\<lambda>s i n. True" and options = no_options and w = "fresh []"
             and ?h1.0 = "\<lparr>srv_port = 8001, url = ''http://localhost:8001'', previewUrl = None,
                           processId = ''proc-1'', closes = proc_1\<lparr>status := ''starting''\<rparr>\<rparr>"
             and ?w1.0 = "after [proc_1\<lparr>status := ''starting''\<rparr>]
                            [ListProcesses, start_8001, WaitForPort ''proc-1'' 8001 wait60]"]
  by (simp add: steady_def undisturbed_def coordinator_defs example_defs render)

end
